theory Spec2Isabelle
  imports Main "HOL-Library.Sublist" "HOL-Library.AList" "HOL-Library.Char_ord"
    "HOL-Library.List_Lexorder"
begin

section \<open>Python values used by the state-mapping code\<close>

text \<open>
  The exceptions that \<^verbatim>\<open>olmo_core/nn/conversion/state_mapping.py\<close> can raise.
  \<open>NonTensorStates n m\<close> is the \<^verbatim>\<open>RuntimeError\<close> "Attempting to map n non-tensor
  states to m keys"; \<open>UnconvertedKeys ks\<close> is the \<^verbatim>\<open>RuntimeError\<close> "Some state keys
  were not converted: ks"; \<open>TorchRuntimeError\<close> stands for any \<^verbatim>\<open>RuntimeError\<close>
  raised inside a tensor operation.
\<close>

datatype error =
    KeyError
  | IndexError
  | AssertionError
  | ValueError
  | TypeError
  | TorchRuntimeError
  | NonTensorStates nat nat
  | UnconvertedKeys "string list"

definition ebind :: "error + 'a \<Rightarrow> ('a \<Rightarrow> error + 'b) \<Rightarrow> error + 'b" where
  "ebind x f = (case x of Inl e \<Rightarrow> Inl e | Inr v \<Rightarrow> f v)"

text \<open>\<^verbatim>\<open>d[k]\<close> on a dictionary kept as an association list.\<close>

definition getitem :: "('k \<times> 'v) list \<Rightarrow> 'k \<Rightarrow> error + 'v" where
  "getitem d k = (case map_of d k of None \<Rightarrow> Inl KeyError | Some v \<Rightarrow> Inr v)"

text \<open>\<^verbatim>\<open>dict(pairs)\<close>: a key keeps the position of its first occurrence and the value
  of its last one.\<close>

definition py_dict :: "('k \<times> 'v) list \<Rightarrow> ('k \<times> 'v) list" where
  "py_dict ps = foldl (\<lambda>d (k, v). AList.update k v d) [] ps"

text \<open>\<^verbatim>\<open>range(n)\<close> for an integer \<open>n\<close>: empty when \<open>n \<le> 0\<close>.\<close>

definition py_range :: "int \<Rightarrow> int list" where
  "py_range n = map int [0 ..< nat n]"

text \<open>\<^verbatim>\<open>str(i)\<close> for an integer: its decimal digits, with a minus sign when negative.\<close>

fun str_nat :: "nat \<Rightarrow> string" where
  "str_nat n =
     (if n < 10 then [char_of (48 + n)]
      else str_nat (n div 10) @ [char_of (48 + n mod 10)])"

declare str_nat.simps [simp del]

definition str_int :: "int \<Rightarrow> string" where
  "str_int i = (if i < 0 then CHR ''-'' # str_nat (nat (- i)) else str_nat (nat i))"

text \<open>\<^verbatim>\<open>sub in s\<close> for strings.\<close>

fun str_contains :: "string \<Rightarrow> string \<Rightarrow> bool" where
  "str_contains sub [] = (sub = [])"
| "str_contains sub (c # cs) = (prefix sub (c # cs) \<or> str_contains sub cs)"

text \<open>\<^verbatim>\<open>s.replace(old, new)\<close>: every occurrence of \<open>old\<close>, found from the left
  and without overlap, becomes \<open>new\<close>. With an empty \<open>old\<close>, Python puts \<open>new\<close>
  before every character and at the end.\<close>

fun replace_from :: "string \<Rightarrow> string \<Rightarrow> string \<Rightarrow> string" where
  "replace_from [] old new = []"
| "replace_from (c # cs) old new =
     (if prefix old (c # cs) then new @ replace_from (drop (length old - 1) cs) old new
      else c # replace_from cs old new)"

definition str_replace :: "string \<Rightarrow> string \<Rightarrow> string \<Rightarrow> string" where
  "str_replace s old new =
     (if old = [] then new @ concat (map (\<lambda>c. c # new) s) else replace_from s old new)"

section \<open>Placeholders, templates and mappings\<close>

datatype TemplatePlaceholder = LAYER | EXPERT

text \<open>The string value of the \<^verbatim>\<open>StrEnum\<close> member.\<close>

fun ph_str :: "TemplatePlaceholder \<Rightarrow> string" where
  "ph_str LAYER = ''[layer]''"
| "ph_str EXPERT = ''[expert]''"

text \<open>\<^verbatim>\<open>str | Tuple[str, ...]\<close>\<close>

datatype template_keys = Single string | Multi "string list"

text \<open>An entry of the shape in \<^verbatim>\<open>unflatten_dim[1]\<close>:
  \<^verbatim>\<open>TemplatePlaceholder | int\<close>.\<close>

datatype shape_entry = Placeholder TemplatePlaceholder | Literal int

record StateMappingTemplate =
  source_template_keys :: template_keys
  dest_template_keys :: template_keys
  source_key_per_placeholder :: "TemplatePlaceholder option"
  dest_key_per_placeholder :: "TemplatePlaceholder option"
  template_source_concat_dim :: int
  template_unflatten_dim :: "(int \<times> shape_entry list) option"
  template_dims_permutation :: "int list option"
  template_flatten_dims :: "(int \<times> int) option"
  template_dest_chunk_dim :: int

record StateMapping =
  source_keys :: "string list"
  dest_keys :: "string list"
  source_concat_dim :: int
  unflatten_dim :: "(int \<times> int list) option"
  dims_permutation :: "int list option"
  flatten_dims :: "(int \<times> int) option"
  dest_chunk_dim :: int

text \<open>\<^verbatim>\<open>StateMappingTemplate.__post_init__\<close>: a placeholder is truthy, so each test
  is "the field is set and the keys are a tuple".\<close>

definition post_init :: "StateMappingTemplate \<Rightarrow> error + StateMappingTemplate" where
  "post_init t =
     (if source_key_per_placeholder t \<noteq> None
         \<and> (case source_template_keys t of Multi _ \<Rightarrow> True | Single _ \<Rightarrow> False)
      then Inl ValueError
      else if dest_key_per_placeholder t \<noteq> None
         \<and> (case dest_template_keys t of Multi _ \<Rightarrow> True | Single _ \<Rightarrow> False)
      then Inl ValueError
      else Inr t)"

text \<open>The inner loop of \<^verbatim>\<open>_templates_to_keys\<close>, over
  \<^verbatim>\<open>placeholder_values.items()\<close>: the tests read \<open>template\<close>, the replacements
  accumulate in \<open>key\<close>, and the first mismatch makes the whole call return \<^verbatim>\<open>None\<close>.\<close>

fun fill_key :: "string \<Rightarrow> (TemplatePlaceholder \<times> int option) list \<Rightarrow> string \<Rightarrow> string option"
  where
  "fill_key template [] key = Some key"
| "fill_key template ((placeholder, value) # items) key =
     (case value of
        Some v \<Rightarrow>
          if str_contains (ph_str placeholder) template
          then fill_key template items (str_replace key (ph_str placeholder) (str_int v))
          else None
      | None \<Rightarrow>
          if \<not> str_contains (ph_str placeholder) template
          then fill_key template items key
          else None)"

text \<open>The outer loop of \<^verbatim>\<open>_templates_to_keys\<close>, over the templates.\<close>

fun fill_keys :: "string list \<Rightarrow> (TemplatePlaceholder \<times> int option) list \<Rightarrow> string list option"
  where
  "fill_keys [] placeholder_values = Some []"
| "fill_keys (template # templates) placeholder_values =
     (case fill_key template placeholder_values template of
        None \<Rightarrow> None
      | Some key \<Rightarrow>
          (case fill_keys templates placeholder_values of
             None \<Rightarrow> None
           | Some keys \<Rightarrow> Some (key # keys)))"

text \<open>\<^verbatim>\<open>StateMappingTemplate._templates_to_keys\<close>. The two \<^verbatim>\<open>assert\<close>s on the
  per-placeholder path are errors of the model.\<close>

definition templates_to_keys ::
  "template_keys \<Rightarrow> (TemplatePlaceholder \<times> int option) list \<Rightarrow> TemplatePlaceholder option
     \<Rightarrow> int list option \<Rightarrow> error + string list option" where
  "templates_to_keys templates placeholder_values key_per_placeholder key_per_placeholder_values =
     (case key_per_placeholder of
        Some p \<Rightarrow>
          (case key_per_placeholder_values of
             None \<Rightarrow> Inr None
           | Some vals \<Rightarrow>
               (case templates of
                  Multi _ \<Rightarrow> Inl AssertionError
                | Single s \<Rightarrow>
                    if \<not> str_contains (ph_str p) s then Inl AssertionError
                    else Inr (fill_keys (map (\<lambda>v. str_replace s (ph_str p) (str_int v)) vals)
                                placeholder_values)))
      | None \<Rightarrow>
          (case templates of
             Single s \<Rightarrow> Inr (fill_keys [s] placeholder_values)
           | Multi ss \<Rightarrow> Inr (fill_keys ss placeholder_values)))"

text \<open>The set \<^verbatim>\<open>required_placeholders\<close> of \<^verbatim>\<open>to_mapping\<close>, as a list.\<close>

definition required_placeholders :: "StateMappingTemplate \<Rightarrow> TemplatePlaceholder list" where
  "required_placeholders t =
     (case source_key_per_placeholder t of None \<Rightarrow> [] | Some p \<Rightarrow> [p])
     @ (case dest_key_per_placeholder t of None \<Rightarrow> [] | Some p \<Rightarrow> [p])
     @ (case template_unflatten_dim t of
          None \<Rightarrow> []
        | Some (d, shp) \<Rightarrow> concat (map (\<lambda>e. case e of Placeholder p \<Rightarrow> [p] | Literal i \<Rightarrow> []) shp))"

text \<open>The argument \<^verbatim>\<open>key_per_placeholder_values\<close> as \<^verbatim>\<open>to_mapping\<close> computes it:
  \<^verbatim>\<open>list(range(placeholder_bounds[p])) if p and placeholder_values[p] is None else None\<close>.
  The condition is evaluated first, so a placeholder without an entry in
  \<^verbatim>\<open>placeholder_values\<close> is a \<^verbatim>\<open>KeyError\<close>.\<close>

definition per_placeholder_values ::
  "TemplatePlaceholder option \<Rightarrow> (TemplatePlaceholder \<times> int option) list
     \<Rightarrow> (TemplatePlaceholder \<times> int) list \<Rightarrow> error + int list option" where
  "per_placeholder_values key_per_placeholder placeholder_values placeholder_bounds =
     (case key_per_placeholder of
        None \<Rightarrow> Inr None
      | Some p \<Rightarrow>
          ebind (getitem placeholder_values p) (\<lambda>value.
            case value of
              Some v \<Rightarrow> Inr None
            | None \<Rightarrow> ebind (getitem placeholder_bounds p) (\<lambda>bound. Inr (Some (py_range bound)))))"

text \<open>The resolved shape of \<^verbatim>\<open>unflatten_dim\<close>.\<close>

fun resolve_shape :: "(TemplatePlaceholder \<times> int) list \<Rightarrow> shape_entry list \<Rightarrow> error + int list"
  where
  "resolve_shape placeholder_bounds [] = Inr []"
| "resolve_shape placeholder_bounds (e # es) =
     (case (case e of Placeholder p \<Rightarrow> getitem placeholder_bounds p | Literal i \<Rightarrow> Inr i) of
        Inl err \<Rightarrow> Inl err
      | Inr n \<Rightarrow>
          (case resolve_shape placeholder_bounds es of
             Inl err \<Rightarrow> Inl err
           | Inr ns \<Rightarrow> Inr (n # ns)))"

text \<open>\<^verbatim>\<open>StateMappingTemplate.to_mapping\<close>: \<open>Inr None\<close> is the not-applicable
  result, \<open>Inl\<close> an exception.\<close>

definition to_mapping ::
  "StateMappingTemplate \<Rightarrow> (TemplatePlaceholder \<times> int option) list
     \<Rightarrow> (TemplatePlaceholder \<times> int) list \<Rightarrow> error + StateMapping option" where
  "to_mapping t placeholder_values placeholder_bounds =
     (if \<exists>p \<in> set (required_placeholders t). p \<notin> set (map fst placeholder_bounds)
      then Inr None
      else
        ebind (per_placeholder_values (source_key_per_placeholder t)
                 placeholder_values placeholder_bounds) (\<lambda>source_values.
        ebind (templates_to_keys (source_template_keys t) placeholder_values
                 (source_key_per_placeholder t) source_values) (\<lambda>source_keys_opt.
        ebind (per_placeholder_values (dest_key_per_placeholder t)
                 placeholder_values placeholder_bounds) (\<lambda>dest_values.
        ebind (templates_to_keys (dest_template_keys t) placeholder_values
                 (dest_key_per_placeholder t) dest_values) (\<lambda>dest_keys_opt.
        case source_keys_opt of
          None \<Rightarrow> Inr None
        | Some skeys \<Rightarrow>
            (case dest_keys_opt of
               None \<Rightarrow> Inr None
             | Some dkeys \<Rightarrow>
                 ebind (case template_unflatten_dim t of
                          None \<Rightarrow> Inr None
                        | Some (d, shp) \<Rightarrow>
                            ebind (resolve_shape placeholder_bounds shp)
                              (\<lambda>ns. Inr (Some (d, ns)))) (\<lambda>unflatten.
                 Inr (Some \<lparr> source_keys = skeys, dest_keys = dkeys,
                             source_concat_dim = template_source_concat_dim t,
                             unflatten_dim = unflatten,
                             dims_permutation = template_dims_permutation t,
                             flatten_dims = template_flatten_dims t,
                             dest_chunk_dim = template_dest_chunk_dim t \<rparr>))))))))"

section \<open>Mapping discovery\<close>

text \<open>\<^verbatim>\<open>placeholder_value_combinations\<close>: the product, in the order of
  \<^verbatim>\<open>itertools.product\<close> (the last placeholder varies fastest), of "each value in
  range, then \<^verbatim>\<open>None\<close>" for every placeholder of \<^verbatim>\<open>placeholder_bounds\<close>,
  each tuple turned into a dictionary.\<close>

definition placeholder_value_combinations ::
  "(TemplatePlaceholder \<times> int) list \<Rightarrow> (TemplatePlaceholder \<times> int option) list list" where
  "placeholder_value_combinations placeholder_bounds =
     map py_dict
       (product_lists
          (map (\<lambda>(placeholder, bound).
                  map (\<lambda>i. (placeholder, Some i)) (py_range bound) @ [(placeholder, None)])
             placeholder_bounds))"

text \<open>A list comprehension whose body may raise: the first exception ends it.\<close>

fun collect :: "('a \<Rightarrow> error + 'b) \<Rightarrow> 'a list \<Rightarrow> error + 'b list" where
  "collect f [] = Inr []"
| "collect f (x # xs) =
     (case f x of
        Inl e \<Rightarrow> Inl e
      | Inr y \<Rightarrow> (case collect f xs of Inl e \<Rightarrow> Inl e | Inr ys \<Rightarrow> Inr (y # ys)))"

text \<open>\<^verbatim>\<open>StateConverter._get_mappings\<close> (and \<^verbatim>\<open>get_mappings\<close>, which only calls
  it). The state dictionary is an association list; only its keys are read.\<close>

definition get_mappings ::
  "StateMappingTemplate list \<Rightarrow> (string \<times> 'v) list \<Rightarrow> (TemplatePlaceholder \<times> int) list
     \<Rightarrow> error + StateMapping list" where
  "get_mappings mapping_templates state_dict placeholder_bounds =
     ebind (collect (\<lambda>(mapping_template, combination).
                       to_mapping mapping_template combination placeholder_bounds)
              (concat (map (\<lambda>mapping_template.
                              map (\<lambda>combination. (mapping_template, combination))
                                (placeholder_value_combinations placeholder_bounds))
                         mapping_templates)))
       (\<lambda>state_mappings.
          Inr (filter (\<lambda>mapping. list_all (\<lambda>k. k \<in> set (map fst state_dict)) (source_keys mapping))
                 (concat (map (\<lambda>m. case m of None \<Rightarrow> [] | Some mapping \<Rightarrow> [mapping])
                            state_mappings))))"

section \<open>Conversion\<close>

text \<open>A value of the state dictionary: a \<^verbatim>\<open>torch.Tensor\<close> or anything else.\<close>

datatype ('t, 's) state_value = TensorValue 't | OtherValue 's

text \<open>
  The operations of the tensor library that \<^verbatim>\<open>convert\<close> calls. They are not code of
  this repository, so the converter takes them as a parameter: \<^verbatim>\<open>torch.cat\<close>,
  \<^verbatim>\<open>Tensor.unflatten\<close>, \<^verbatim>\<open>Tensor.permute\<close>, \<^verbatim>\<open>Tensor.flatten\<close>,
  \<^verbatim>\<open>torch.chunk\<close> and \<^verbatim>\<open>Tensor.contiguous\<close>. Each may raise, except the last.
  \<^verbatim>\<open>torch.cat\<close> receives the values of the dictionary as they are.
\<close>

record ('t, 's) tensor_ops =
  cat :: "('t, 's) state_value list \<Rightarrow> int \<Rightarrow> error + 't"
  unflatten :: "'t \<Rightarrow> int \<Rightarrow> int list \<Rightarrow> error + 't"
  permute :: "'t \<Rightarrow> int list \<Rightarrow> error + 't"
  flatten :: "'t \<Rightarrow> int \<Rightarrow> int \<Rightarrow> error + 't"
  chunk :: "'t \<Rightarrow> int \<Rightarrow> int \<Rightarrow> error + 't list"
  contiguous :: "'t \<Rightarrow> 't"

text \<open>\<^verbatim>\<open>[state_dict[key] for key in original_keys]\<close>, the list handed to
  \<^verbatim>\<open>torch.cat\<close>: the values in the order of the source keys.\<close>

definition source_states :: "(string \<times> 'v) list \<Rightarrow> string list \<Rightarrow> error + 'v list" where
  "source_states state_dict original_keys = collect (getitem state_dict) original_keys"

text \<open>The body of the loop of \<^verbatim>\<open>convert\<close> after \<^verbatim>\<open>torch.cat\<close>, up to the
  assignments: the optional \<^verbatim>\<open>unflatten\<close>, \<^verbatim>\<open>permute\<close> and \<^verbatim>\<open>flatten\<close>, then
  \<^verbatim>\<open>torch.chunk\<close>; the destination keys are paired (\<^verbatim>\<open>zip\<close>) with the
  contiguous chunks.\<close>

definition reshape_and_chunk ::
  "('t, 's) tensor_ops \<Rightarrow> StateMapping \<Rightarrow> 't \<Rightarrow> error + (string \<times> 't) list" where
  "reshape_and_chunk ops mapping state1 =
     (let converted_keys = dest_keys mapping in
      ebind (case unflatten_dim mapping of
               None \<Rightarrow> Inr state1
             | Some (d, shp) \<Rightarrow> unflatten ops state1 d shp) (\<lambda>state2.
      ebind (case dims_permutation mapping of
               None \<Rightarrow> Inr state2
             | Some dims \<Rightarrow> permute ops state2 dims) (\<lambda>state3.
      ebind (case flatten_dims mapping of
               None \<Rightarrow> Inr state3
             | Some (start_dim, end_dim) \<Rightarrow> flatten ops state3 start_dim end_dim)
        (\<lambda>original_state.
      ebind (chunk ops original_state (int (length converted_keys)) (dest_chunk_dim mapping))
        (\<lambda>state_chunks.
      Inr (zip converted_keys (map (contiguous ops) state_chunks)))))))"

text \<open>The body of the loop of \<^verbatim>\<open>convert\<close> for one mapping, up to the assignments:
  the type test on the value of the first source key, \<^verbatim>\<open>torch.cat\<close> on the values of
  all source keys, and the rest of the tensor operations.\<close>

definition mapping_chunks ::
  "('t, 's) tensor_ops \<Rightarrow> (string \<times> ('t, 's) state_value) list \<Rightarrow> StateMapping
     \<Rightarrow> error + (string \<times> 't) list" where
  "mapping_chunks ops state_dict mapping =
     (let original_keys = source_keys mapping; converted_keys = dest_keys mapping in
      ebind (case original_keys of [] \<Rightarrow> Inl IndexError | k # ks \<Rightarrow> getitem state_dict k)
        (\<lambda>first.
      case first of
        OtherValue x \<Rightarrow> Inl (NonTensorStates (length original_keys) (length converted_keys))
      | TensorValue x \<Rightarrow>
          ebind (source_states state_dict original_keys) (\<lambda>states.
          ebind (cat ops states (source_concat_dim mapping)) (reshape_and_chunk ops mapping))))"

text \<open>\<^verbatim>\<open>converted_state_dict[hf_key] = ...\<close> for each pair, in order.\<close>

definition assign_all :: "(string \<times> 't) list \<Rightarrow> (string \<times> 't) list \<Rightarrow> (string \<times> 't) list"
  where
  "assign_all converted_state_dict pairs =
     foldl (\<lambda>d (k, v). AList.update k v d) converted_state_dict pairs"

text \<open>The loop of \<^verbatim>\<open>convert\<close> over the mappings; the state is the destination
  dictionary and the set \<^verbatim>\<open>unused_original_keys\<close>.\<close>

fun apply_mappings ::
  "('t, 's) tensor_ops \<Rightarrow> (string \<times> ('t, 's) state_value) list \<Rightarrow> StateMapping list
     \<Rightarrow> (string \<times> 't) list \<times> string set \<Rightarrow> error + (string \<times> 't) list \<times> string set" where
  "apply_mappings ops state_dict [] st = Inr st"
| "apply_mappings ops state_dict (mapping # mappings) (converted_state_dict, unused_original_keys) =
     (case mapping_chunks ops state_dict mapping of
        Inl e \<Rightarrow> Inl e
      | Inr pairs \<Rightarrow>
          apply_mappings ops state_dict mappings
            (assign_all converted_state_dict pairs,
             unused_original_keys - set (source_keys mapping)))"

text \<open>\<^verbatim>\<open>StateConverter.convert\<close>; \<open>mapping_templates\<close> is the field of the
  converter.\<close>

definition convert ::
  "('t, 's) tensor_ops \<Rightarrow> StateMappingTemplate list \<Rightarrow> (string \<times> ('t, 's) state_value) list
     \<Rightarrow> (TemplatePlaceholder \<times> int) list \<Rightarrow> error + (string \<times> 't) list" where
  "convert ops mapping_templates state_dict placeholder_bounds =
     ebind (get_mappings mapping_templates state_dict placeholder_bounds) (\<lambda>state_mappings.
     ebind (apply_mappings ops state_dict state_mappings ([], set (map fst state_dict)))
       (\<lambda>(converted_state_dict, unused_original_keys).
          if unused_original_keys \<noteq> {}
          then Inl (UnconvertedKeys (sorted_list_of_set unused_original_keys))
          else Inr converted_state_dict))"

section \<open>The state dictionaries as objects\<close>

text \<open>
  \<^verbatim>\<open>convert\<close> and \<^verbatim>\<open>get_mappings\<close> receive a reference to the dictionary of the
  caller. To say what they do to it, dictionaries live in a heap: a list of dictionaries,
  a dictionary being named by its position, its address. \<^verbatim>\<open>{}\<close> allocates an empty
  dictionary at a new address, and \<^verbatim>\<open>d[k] = v\<close> updates the dictionary at the address
  of \<open>d\<close>. Tensors stay values: the tensor operations that \<^verbatim>\<open>convert\<close> calls create
  their results and change no tensor in place.
\<close>

type_synonym ('t, 's) heap = "(string \<times> ('t, 's) state_value) list list"

definition new_dict :: "('t, 's) heap \<Rightarrow> ('t, 's) heap \<times> nat" where
  "new_dict h = (h @ [[]], length h)"

definition setitem ::
  "('t, 's) heap \<Rightarrow> nat \<Rightarrow> string \<Rightarrow> ('t, 's) state_value \<Rightarrow> ('t, 's) heap" where
  "setitem h d k v = h[d := AList.update k v (h ! d)]"

text \<open>\<^verbatim>\<open>converted_state_dict[hf_key] = state_chunk.contiguous()\<close> for each pair, on the
  dictionary at the address \<open>converted_state_dict\<close>.\<close>

definition assign_all_heap ::
  "('t, 's) heap \<Rightarrow> nat \<Rightarrow> (string \<times> 't) list \<Rightarrow> ('t, 's) heap" where
  "assign_all_heap h converted_state_dict pairs =
     foldl (\<lambda>h (k, v). setitem h converted_state_dict k (TensorValue v)) h pairs"

text \<open>The loop of \<^verbatim>\<open>convert\<close>: \<open>state_dict\<close> and \<open>converted_state_dict\<close> are
  addresses, the dictionary of the source is read in the current heap at each turn, and
  the heap is returned also when the loop raises.\<close>

fun apply_mappings_heap ::
  "('t, 's) tensor_ops \<Rightarrow> nat \<Rightarrow> StateMapping list
     \<Rightarrow> ('t, 's) heap \<times> nat \<times> string set \<Rightarrow> ('t, 's) heap \<times> (error + string set)" where
  "apply_mappings_heap ops state_dict [] (h, converted_state_dict, unused_original_keys) =
     (h, Inr unused_original_keys)"
| "apply_mappings_heap ops state_dict (mapping # mappings)
       (h, converted_state_dict, unused_original_keys) =
     (case mapping_chunks ops (h ! state_dict) mapping of
        Inl e \<Rightarrow> (h, Inl e)
      | Inr pairs \<Rightarrow>
          apply_mappings_heap ops state_dict mappings
            (assign_all_heap h converted_state_dict pairs, converted_state_dict,
             unused_original_keys - set (source_keys mapping)))"

text \<open>\<^verbatim>\<open>StateConverter.get_mappings\<close> on the dictionary at the address
  \<open>state_dict\<close>: it reads the keys and writes nothing.\<close>

definition get_mappings_heap ::
  "StateMappingTemplate list \<Rightarrow> ('t, 's) heap \<Rightarrow> nat \<Rightarrow> (TemplatePlaceholder \<times> int) list
     \<Rightarrow> ('t, 's) heap \<times> (error + StateMapping list)" where
  "get_mappings_heap mapping_templates h state_dict placeholder_bounds =
     (h, get_mappings mapping_templates (h ! state_dict) placeholder_bounds)"

text \<open>\<^verbatim>\<open>StateConverter.convert\<close> on the dictionary at the address \<open>state_dict\<close>: the
  result is the heap after the call, with the exception raised or the address of the
  dictionary returned.\<close>

definition convert_heap ::
  "('t, 's) tensor_ops \<Rightarrow> StateMappingTemplate list \<Rightarrow> ('t, 's) heap \<Rightarrow> nat
     \<Rightarrow> (TemplatePlaceholder \<times> int) list \<Rightarrow> ('t, 's) heap \<times> (error + nat)" where
  "convert_heap ops mapping_templates h state_dict placeholder_bounds =
     (case get_mappings_heap mapping_templates h state_dict placeholder_bounds of
        (h0, Inl e) \<Rightarrow> (h0, Inl e)
      | (h0, Inr state_mappings) \<Rightarrow>
          (let unused_original_keys = set (map fst (h0 ! state_dict));
               (h1, converted_state_dict) = new_dict h0
           in case apply_mappings_heap ops state_dict state_mappings
                     (h1, converted_state_dict, unused_original_keys) of
                (h2, Inl e) \<Rightarrow> (h2, Inl e)
              | (h2, Inr unused) \<Rightarrow>
                  if unused \<noteq> {}
                  then (h2, Inl (UnconvertedKeys (sorted_list_of_set unused)))
                  else (h2, Inr converted_state_dict)))"

section \<open>The tensor library\<close>

text \<open>
  PyTorch is not part of the repository. The definitions of this section follow its
  documented behaviour on dense tensors, seen as values: a tensor is its shape and its
  elements in row-major order. Element types and devices are left out.
\<close>

datatype 'a tensor = Tensor (shape: "nat list") (elems: "'a list")

definition well_formed :: "'a tensor \<Rightarrow> bool" where
  "well_formed t = (length (elems t) = prod_list (shape t))"

text \<open>A dimension argument may count from the end; a tensor without dimensions is
  indexed like one with a single dimension.\<close>

definition wrap_dim :: "int \<Rightarrow> nat \<Rightarrow> error + nat" where
  "wrap_dim d n =
     (let m = int (max n 1) in
      if - m \<le> d \<and> d < m then Inr (nat (if d < 0 then d + m else d)) else Inl IndexError)"

text \<open>The elements of the slice \<open>[start, start + len)\<close> along dimension \<open>d\<close>.\<close>

definition narrow_elems :: "nat list \<Rightarrow> nat \<Rightarrow> nat \<Rightarrow> nat \<Rightarrow> 'a list \<Rightarrow> 'a list" where
  "narrow_elems shp d start len xs =
     (let inner = prod_list (drop (Suc d) shp); size_d = shp ! d in
      concat (map (\<lambda>outer. take (len * inner) (drop ((outer * size_d + start) * inner) xs))
                [0 ..< prod_list (take d shp)]))"

definition narrow :: "'a tensor \<Rightarrow> nat \<Rightarrow> nat \<Rightarrow> nat \<Rightarrow> 'a tensor" where
  "narrow t d start len =
     Tensor ((shape t)[d := len]) (narrow_elems (shape t) d start len (elems t))"

text \<open>The elements of the concatenation along dimension \<open>d\<close> of tensors that agree on
  the first \<open>d\<close> dimensions \<open>outer_shape\<close>.\<close>

definition cat_elems :: "nat \<Rightarrow> nat list \<Rightarrow> 'a tensor list \<Rightarrow> 'a list" where
  "cat_elems d outer_shape ts =
     concat (map (\<lambda>outer.
                    concat (map (\<lambda>t. let block = prod_list (drop d (shape t))
                                      in take block (drop (outer * block) (elems t))) ts))
               [0 ..< prod_list outer_shape])"

fun tensors_of :: "('t, 's) state_value list \<Rightarrow> 't list option" where
  "tensors_of [] = Some []"
| "tensors_of (TensorValue t # vs) = map_option (Cons t) (tensors_of vs)"
| "tensors_of (OtherValue x # vs) = None"

text \<open>
  \<^verbatim>\<open>torch.cat(tensors, dim)\<close>: every element must be a tensor (\<^verbatim>\<open>TypeError\<close>), the
  list non-empty, no tensor without dimensions; tensors of shape \<open>[0]\<close> are skipped;
  the others must agree on every dimension but \<open>dim\<close>.
\<close>

definition torch_cat :: "('a tensor, 's) state_value list \<Rightarrow> int \<Rightarrow> error + 'a tensor" where
  "torch_cat values dim =
     (case tensors_of values of
        None \<Rightarrow> Inl TypeError
      | Some ts \<Rightarrow>
          if ts = [] then Inl TorchRuntimeError
          else if list_ex (\<lambda>t. shape t = []) ts then Inl TorchRuntimeError
          else
            (case filter (\<lambda>t. shape t \<noteq> [0]) ts of
               [] \<Rightarrow> Inr (Tensor [0] [])
             | t0 # rest \<Rightarrow>
                 ebind (wrap_dim dim (length (shape t0))) (\<lambda>d.
                   if list_ex (\<lambda>t. (shape t)[d := 0] \<noteq> (shape t0)[d := 0]) rest
                   then Inl TorchRuntimeError
                   else Inr (Tensor ((shape t0)[d := sum_list (map (\<lambda>t. shape t ! d) (t0 # rest))])
                               (cat_elems d (take d (shape t0)) (t0 # rest))))))"

text \<open>The sizes of \<^verbatim>\<open>unflatten\<close>: at most one \<open>-1\<close>, which is inferred; the
  product must be the size of the dimension.\<close>

definition infer_size :: "int list \<Rightarrow> nat \<Rightarrow> error + nat list" where
  "infer_size sizes numel =
     (let known = prod_list (map nat (filter (\<lambda>s. s \<noteq> - 1) sizes)) in
      if list_ex (\<lambda>s. s < - 1) sizes \<or> 1 < length (filter (\<lambda>s. s = - 1) sizes)
      then Inl TorchRuntimeError
      else if - 1 \<in> set sizes
      then (if known \<noteq> 0 \<and> numel mod known = 0
            then Inr (map (\<lambda>s. if s = - 1 then numel div known else nat s) sizes)
            else Inl TorchRuntimeError)
      else if numel = known then Inr (map nat sizes) else Inl TorchRuntimeError)"

definition torch_unflatten :: "'a tensor \<Rightarrow> int \<Rightarrow> int list \<Rightarrow> error + 'a tensor" where
  "torch_unflatten t dim sizes =
     ebind (wrap_dim dim (length (shape t))) (\<lambda>d.
       if sizes = [] then Inl TorchRuntimeError
       else if shape t = [] then Inl IndexError
       else ebind (infer_size sizes (shape t ! d)) (\<lambda>ns.
              Inr (Tensor (take d (shape t) @ ns @ drop (Suc d) (shape t)) (elems t))))"

text \<open>Row-major strides, and the offsets of all elements of a view given by the sizes
  and strides of its dimensions, in row-major order of the view.\<close>

definition stride :: "nat list \<Rightarrow> nat \<Rightarrow> nat" where
  "stride shp d = prod_list (drop (Suc d) shp)"

fun offsets :: "(nat \<times> nat) list \<Rightarrow> nat list" where
  "offsets [] = [0]"
| "offsets ((n, st) # dims) = concat (map (\<lambda>i. map (\<lambda>off. i * st + off) (offsets dims)) [0 ..< n])"

definition torch_permute :: "'a tensor \<Rightarrow> int list \<Rightarrow> error + 'a tensor" where
  "torch_permute t dims =
     (if length dims \<noteq> length (shape t) then Inl TorchRuntimeError
      else ebind (collect (\<lambda>d. wrap_dim d (length (shape t))) dims) (\<lambda>ds.
             if \<not> distinct ds then Inl TorchRuntimeError
             else Inr (Tensor (map (\<lambda>d. shape t ! d) ds)
                         (concat (map (\<lambda>off. take 1 (drop off (elems t)))
                                    (offsets (map (\<lambda>d. (shape t ! d, stride (shape t) d)) ds)))))))"

definition torch_flatten :: "'a tensor \<Rightarrow> int \<Rightarrow> int \<Rightarrow> error + 'a tensor" where
  "torch_flatten t start_dim end_dim =
     ebind (wrap_dim start_dim (length (shape t))) (\<lambda>s.
     ebind (wrap_dim end_dim (length (shape t))) (\<lambda>e.
       if e < s then Inl TorchRuntimeError
       else if shape t = [] then Inr (Tensor [1] (elems t))
       else Inr (Tensor (take s (shape t) @ [prod_list (take (Suc e - s) (drop s (shape t)))]
                           @ drop (Suc e) (shape t))
                   (elems t))))"

text \<open>
  \<^verbatim>\<open>torch.chunk(input, chunks, dim)\<close>: pieces of size \<open>\<lceil>n / chunks\<rceil>\<close> along
  \<open>dim\<close>, the last one smaller when \<open>n\<close> is not a multiple, and fewer than \<open>chunks\<close>
  pieces when they already cover the dimension. It does not raise on an uneven split.
\<close>

definition torch_chunk :: "'a tensor \<Rightarrow> int \<Rightarrow> int \<Rightarrow> error + 'a tensor list" where
  "torch_chunk t chunks dim =
     (if shape t = [] then Inl TorchRuntimeError
      else if chunks \<le> 0 then Inl TorchRuntimeError
      else ebind (wrap_dim dim (length (shape t))) (\<lambda>d.
             let n = shape t ! d; c = nat chunks; split_size = (n + c - 1) div c in
             if split_size = 0 then Inr (replicate c (narrow t d 0 0))
             else Inr (map (\<lambda>i. narrow t d (i * split_size) (min split_size (n - i * split_size)))
                         [0 ..< max ((n + split_size - 1) div split_size) 1])))"

definition torch :: "('a tensor, 's) tensor_ops" where
  "torch = \<lparr> cat = torch_cat, unflatten = torch_unflatten, permute = torch_permute,
             flatten = torch_flatten, chunk = torch_chunk, contiguous = (\<lambda>t. t) \<rparr>"

section \<open>What the specification says of key materialization\<close>

text \<open>
  The two definitions of this section follow the words of the specification, not the code:
  they are what the loop of \<^verbatim>\<open>_templates_to_keys\<close> is compared with.

  An entry of the assignment and a template string mismatch when the placeholder appears
  in the string and the entry is the expand-sentinel \<^verbatim>\<open>None\<close>, or the placeholder
  does not appear in the string and the entry is a concrete value.
\<close>

fun mismatch :: "string \<Rightarrow> TemplatePlaceholder \<times> int option \<Rightarrow> bool" where
  "mismatch template (placeholder, None) = str_contains (ph_str placeholder) template"
| "mismatch template (placeholder, Some v) = (\<not> str_contains (ph_str placeholder) template)"

text \<open>Every placeholder with a concrete value in the assignment is substituted by the
  string form of its value, in the order of the assignment.\<close>

fun substitute_values :: "(TemplatePlaceholder \<times> int option) list \<Rightarrow> string \<Rightarrow> string" where
  "substitute_values [] key = key"
| "substitute_values ((placeholder, None) # items) key = substitute_values items key"
| "substitute_values ((placeholder, Some v) # items) key =
     substitute_values items (str_replace key (ph_str placeholder) (str_int v))"

section \<open>Example inputs\<close>

text \<open>One source key \<open>w\<close> mapped to the three destination keys \<open>a\<close>, \<open>b\<close>,
  \<open>c\<close>, chunked along dimension 0.\<close>

definition uneven_template :: StateMappingTemplate where
  "uneven_template =
     \<lparr> source_template_keys = Single ''w'',
       dest_template_keys = Multi [''a'', ''b'', ''c''],
       source_key_per_placeholder = None, dest_key_per_placeholder = None,
       template_source_concat_dim = 0, template_unflatten_dim = None,
       template_dims_permutation = None, template_flatten_dims = None,
       template_dest_chunk_dim = 0 \<rparr>"

text \<open>All experts of a model mapped to one state: the template requires
  \<^verbatim>\<open>TemplatePlaceholder.EXPERT\<close>.\<close>

definition per_expert_template :: StateMappingTemplate where
  "per_expert_template =
     \<lparr> source_template_keys = Single ''experts.[expert].w'',
       dest_template_keys = Single ''mlp.w'',
       source_key_per_placeholder = Some EXPERT, dest_key_per_placeholder = None,
       template_source_concat_dim = 0, template_unflatten_dim = None,
       template_dims_permutation = None, template_flatten_dims = None,
       template_dest_chunk_dim = 0 \<rparr>"

text \<open>A one-to-one template whose keys mention \<^verbatim>\<open>[expert]\<close>, without any
  per-placeholder expansion.\<close>

definition expert_key_template :: StateMappingTemplate where
  "expert_key_template =
     \<lparr> source_template_keys = Single ''experts.[expert].w'',
       dest_template_keys = Single ''mlp.[expert].w'',
       source_key_per_placeholder = None, dest_key_per_placeholder = None,
       template_source_concat_dim = 0, template_unflatten_dim = None,
       template_dims_permutation = None, template_flatten_dims = None,
       template_dest_chunk_dim = 0 \<rparr>"

text \<open>One state mapped to one state per expert.\<close>

definition to_experts_template :: StateMappingTemplate where
  "to_experts_template =
     \<lparr> source_template_keys = Single ''mlp.w'',
       dest_template_keys = Single ''experts.[expert].w'',
       source_key_per_placeholder = None, dest_key_per_placeholder = Some EXPERT,
       template_source_concat_dim = 0, template_unflatten_dim = None,
       template_dims_permutation = None, template_flatten_dims = None,
       template_dest_chunk_dim = 0 \<rparr>"

text \<open>All layers on the source side, all experts on the destination side.\<close>

definition layers_to_experts_template :: StateMappingTemplate where
  "layers_to_experts_template =
     \<lparr> source_template_keys = Single ''blocks.[layer].w'',
       dest_template_keys = Single ''experts.[expert].w'',
       source_key_per_placeholder = Some LAYER, dest_key_per_placeholder = Some EXPERT,
       template_source_concat_dim = 0, template_unflatten_dim = None,
       template_dims_permutation = None, template_flatten_dims = None,
       template_dest_chunk_dim = 0 \<rparr>"

text \<open>All layers of a model mapped to one state.\<close>

definition all_layers_template :: StateMappingTemplate where
  "all_layers_template =
     \<lparr> source_template_keys = Single ''blocks.[layer].w'',
       dest_template_keys = Single ''all.w'',
       source_key_per_placeholder = Some LAYER, dest_key_per_placeholder = None,
       template_source_concat_dim = 0, template_unflatten_dim = None,
       template_dims_permutation = None, template_flatten_dims = None,
       template_dest_chunk_dim = 0 \<rparr>"

text \<open>The same source side, with a destination key that mentions \<^verbatim>\<open>[layer]\<close> and no
  expansion on the destination side.\<close>

definition layers_to_layer_template :: StateMappingTemplate where
  "layers_to_layer_template =
     \<lparr> source_template_keys = Single ''blocks.[layer].w'',
       dest_template_keys = Single ''model.[layer].w'',
       source_key_per_placeholder = Some LAYER, dest_key_per_placeholder = None,
       template_source_concat_dim = 0, template_unflatten_dim = None,
       template_dims_permutation = None, template_flatten_dims = None,
       template_dest_chunk_dim = 0 \<rparr>"

text \<open>The mapping that \<open>all_layers_template\<close> resolves to with four layers.\<close>

definition all_layers_mapping :: StateMapping where
  "all_layers_mapping =
     \<lparr> source_keys = [''blocks.0.w'', ''blocks.1.w'', ''blocks.2.w'', ''blocks.3.w''],
       dest_keys = [''all.w''],
       source_concat_dim = 0, unflatten_dim = None, dims_permutation = None,
       flatten_dims = None, dest_chunk_dim = 0 \<rparr>"

text \<open>Two one-to-one templates that read the same source key, and a template that
  joins two source keys.\<close>

definition copy_a_x_template :: StateMappingTemplate where
  "copy_a_x_template =
     \<lparr> source_template_keys = Single ''a'', dest_template_keys = Single ''x'',
       source_key_per_placeholder = None, dest_key_per_placeholder = None,
       template_source_concat_dim = 0, template_unflatten_dim = None,
       template_dims_permutation = None, template_flatten_dims = None,
       template_dest_chunk_dim = 0 \<rparr>"

definition copy_a_y_template :: StateMappingTemplate where
  "copy_a_y_template =
     \<lparr> source_template_keys = Single ''a'', dest_template_keys = Single ''y'',
       source_key_per_placeholder = None, dest_key_per_placeholder = None,
       template_source_concat_dim = 0, template_unflatten_dim = None,
       template_dims_permutation = None, template_flatten_dims = None,
       template_dest_chunk_dim = 0 \<rparr>"

definition join_a_b_template :: StateMappingTemplate where
  "join_a_b_template =
     \<lparr> source_template_keys = Multi [''a'', ''b''], dest_template_keys = Single ''c'',
       source_key_per_placeholder = None, dest_key_per_placeholder = None,
       template_source_concat_dim = 0, template_unflatten_dim = None,
       template_dims_permutation = None, template_flatten_dims = None,
       template_dest_chunk_dim = 0 \<rparr>"

text \<open>The mappings they resolve to.\<close>

definition copy_a_x_mapping :: StateMapping where
  "copy_a_x_mapping =
     \<lparr> source_keys = [''a''], dest_keys = [''x''],
       source_concat_dim = 0, unflatten_dim = None, dims_permutation = None,
       flatten_dims = None, dest_chunk_dim = 0 \<rparr>"

definition copy_a_y_mapping :: StateMapping where
  "copy_a_y_mapping =
     \<lparr> source_keys = [''a''], dest_keys = [''y''],
       source_concat_dim = 0, unflatten_dim = None, dims_permutation = None,
       flatten_dims = None, dest_chunk_dim = 0 \<rparr>"

definition join_a_b_mapping :: StateMapping where
  "join_a_b_mapping =
     \<lparr> source_keys = [''a'', ''b''], dest_keys = [''c''],
       source_concat_dim = 0, unflatten_dim = None, dims_permutation = None,
       flatten_dims = None, dest_chunk_dim = 0 \<rparr>"

text \<open>The same with the source keys in the other order.\<close>

definition join_b_a_template :: StateMappingTemplate where
  "join_b_a_template =
     \<lparr> source_template_keys = Multi [''b'', ''a''], dest_template_keys = Single ''c'',
       source_key_per_placeholder = None, dest_key_per_placeholder = None,
       template_source_concat_dim = 0, template_unflatten_dim = None,
       template_dims_permutation = None, template_flatten_dims = None,
       template_dest_chunk_dim = 0 \<rparr>"

definition join_b_a_mapping :: StateMapping where
  "join_b_a_mapping =
     \<lparr> source_keys = [''b'', ''a''], dest_keys = [''c''],
       source_concat_dim = 0, unflatten_dim = None, dims_permutation = None,
       flatten_dims = None, dest_chunk_dim = 0 \<rparr>"

text \<open>One weight per layer on both sides, and the mapping it resolves to with two
  layers.\<close>

definition w_q_template :: StateMappingTemplate where
  "w_q_template =
     \<lparr> source_template_keys = Single ''blocks.[layer].attn.w_q'',
       dest_template_keys = Single ''model.layers.[layer].self_attn.q_proj.weight'',
       source_key_per_placeholder = Some LAYER, dest_key_per_placeholder = Some LAYER,
       template_source_concat_dim = 0, template_unflatten_dim = None,
       template_dims_permutation = None, template_flatten_dims = None,
       template_dest_chunk_dim = 0 \<rparr>"

definition w_q_mapping :: StateMapping where
  "w_q_mapping =
     \<lparr> source_keys = [''blocks.0.attn.w_q'', ''blocks.1.attn.w_q''],
       dest_keys = [''model.layers.0.self_attn.q_proj.weight'',
                    ''model.layers.1.self_attn.q_proj.weight''],
       source_concat_dim = 0, unflatten_dim = None, dims_permutation = None,
       flatten_dims = None, dest_chunk_dim = 0 \<rparr>"

section \<open>Basic facts\<close>

lemma ebind_Inr [simp]: "ebind (Inr v) f = f v" by (simp add: ebind_def)
lemma ebind_Inl [simp]: "ebind (Inl e) f = Inl e" by (simp add: ebind_def)

lemma getitem_None: "k \<notin> set (map fst d) \<Longrightarrow> getitem d k = Inl KeyError"
proof -
  assume "k \<notin> set (map fst d)"
  then have "map_of d k = None" by (simp add: map_of_eq_None_iff)
  then show ?thesis by (simp add: getitem_def)
qed

lemma getitem_Inr: "getitem d k = Inr v \<longleftrightarrow> map_of d k = Some v"
  by (auto simp: getitem_def split: option.splits)

lemma getitem_member: "k \<in> set (map fst d) \<Longrightarrow> \<exists>v. getitem d k = Inr v"
proof -
  assume "k \<in> set (map fst d)"
  then have "map_of d k \<noteq> None" by (simp add: map_of_eq_None_iff)
  then show ?thesis by (auto simp: getitem_def)
qed

lemma getitem_Inl: "getitem d k = Inl e \<Longrightarrow> e = KeyError \<and> k \<notin> set (map fst d)"
  using getitem_member[of k d] by (auto simp: getitem_def split: option.splits)

lemma required_source:
  "source_key_per_placeholder t = Some p \<Longrightarrow> p \<in> set (required_placeholders t)"
  by (simp add: required_placeholders_def)

lemma required_dest:
  "dest_key_per_placeholder t = Some p \<Longrightarrow> p \<in> set (required_placeholders t)"
  by (simp add: required_placeholders_def)

lemma required_unflatten:
  assumes "template_unflatten_dim t = Some (d, shp)" "Placeholder p \<in> set shp"
  shows "p \<in> set (required_placeholders t)"
proof -
  have "p \<in> set (concat (map (\<lambda>e. case e of Placeholder p \<Rightarrow> [p] | Literal i \<Rightarrow> []) shp))"
    using assms(2) by (induction shp) auto
  then show ?thesis using assms(1) by (simp add: required_placeholders_def)
qed

lemma to_mapping_missing_required:
  assumes "p \<in> set (required_placeholders t)" "p \<notin> set (map fst placeholder_bounds)"
  shows "to_mapping t placeholder_values placeholder_bounds = Inr None"
proof -
  have "\<exists>p \<in> set (required_placeholders t). p \<notin> set (map fst placeholder_bounds)"
    using assms by blast
  then show ?thesis unfolding to_mapping_def by (rule if_P)
qed

lemma collect_append:
  "collect f (xs @ ys) =
     (case collect f xs of Inl e \<Rightarrow> Inl e
      | Inr a \<Rightarrow> (case collect f ys of Inl e \<Rightarrow> Inl e | Inr b \<Rightarrow> Inr (a @ b)))"
  by (induction xs) (auto split: sum.splits)

lemma collect_const:
  "\<forall>x \<in> set xs. f x = Inr c \<Longrightarrow> collect f xs = Inr (map (\<lambda>x. c) xs)"
  by (induction xs) auto

lemma collect_Inl: "collect f xs = Inl e \<Longrightarrow> \<exists>x \<in> set xs. f x = Inl e"
  by (induction xs) (auto split: sum.splits)

lemma collect_Inr_length: "collect f xs = Inr ys \<Longrightarrow> length ys = length xs"
proof (induction xs arbitrary: ys)
  case Nil
  then show ?case by simp
next
  case (Cons x xs)
  show ?case
  proof (cases "f x")
    case (Inl e)
    with Cons.prems show ?thesis by simp
  next
    case (Inr y)
    show ?thesis
    proof (cases "collect f xs")
      case (Inl e)
      with Inr Cons.prems show ?thesis by simp
    next
      case r: (Inr zs)
      with Inr Cons.prems have "ys = y # zs" by simp
      with Cons.IH[OF r] show ?thesis by simp
    qed
  qed
qed

lemma templates_to_keys_Inl:
  "templates_to_keys ts vals kpp kv = Inl e \<Longrightarrow> e = AssertionError"
  by (auto simp: templates_to_keys_def split: option.splits template_keys.splits if_splits)

lemma per_placeholder_values_None [simp]: "per_placeholder_values None vals pb = Inr None"
  by (simp add: per_placeholder_values_def)

lemma per_placeholder_values_missing:
  "p \<notin> set (map fst vals) \<Longrightarrow> per_placeholder_values (Some p) vals pb = Inl KeyError"
  by (simp add: per_placeholder_values_def getitem_None)

lemma per_placeholder_values_ok:
  assumes "p \<in> set (map fst vals)" "p \<in> set (map fst pb)"
  shows "\<exists>r. per_placeholder_values (Some p) vals pb = Inr r"
proof -
  obtain v where v: "getitem vals p = Inr v" using getitem_member[OF assms(1)] by blast
  obtain b where b: "getitem pb p = Inr b" using getitem_member[OF assms(2)] by blast
  show ?thesis by (cases v) (simp_all add: per_placeholder_values_def v b)
qed

lemma resolve_shape_ok:
  "\<forall>p. Placeholder p \<in> set shp \<longrightarrow> p \<in> set (map fst pb) \<Longrightarrow> \<exists>ns. resolve_shape pb shp = Inr ns"
proof (induction shp)
  case Nil
  then show ?case by simp
next
  case (Cons e es)
  then obtain ns where ns: "resolve_shape pb es = Inr ns" by auto
  show ?case
  proof (cases e)
    case (Placeholder p)
    with Cons.prems have "p \<in> set (map fst pb)" by simp
    from getitem_member[OF this] obtain b where "getitem pb p = Inr b" ..
    with ns Placeholder show ?thesis by simp
  next
    case (Literal i)
    with ns show ?thesis by simp
  qed
qed


lemma per_placeholder_values_Inl:
  assumes "per_placeholder_values kpp pv pb = Inl e"
  shows "e = KeyError \<and> (\<exists>p. kpp = Some p \<and> (p \<notin> set (map fst pv) \<or> p \<notin> set (map fst pb)))"
proof (cases kpp)
  case None
  with assms show ?thesis by simp
next
  case (Some p)
  show ?thesis
  proof (cases "getitem pv p")
    case (Inl e1)
    from getitem_Inl[OF Inl] Inl assms Some show ?thesis
      by (simp add: per_placeholder_values_def)
  next
    case (Inr v)
    show ?thesis
    proof (cases v)
      case None
      show ?thesis
      proof (cases "getitem pb p")
        case (Inl e2)
        from getitem_Inl[OF Inl] Inl assms Some Inr None show ?thesis
          by (simp add: per_placeholder_values_def)
      next
        case r: (Inr b)
        with assms Some Inr None show ?thesis by (simp add: per_placeholder_values_def)
      qed
    next
      case (Some i)
      with assms \<open>kpp = Some p\<close> Inr show ?thesis by (simp add: per_placeholder_values_def)
    qed
  qed
qed

lemma to_mapping_Inl:
  assumes "to_mapping t pv pb = Inl e"
  shows "e = AssertionError
    \<or> (e = KeyError \<and> (\<exists>p. (source_key_per_placeholder t = Some p \<or> dest_key_per_placeholder t = Some p)
                              \<and> p \<in> set (map fst pb) \<and> p \<notin> set (map fst pv)))"
proof -
  have req: "\<not> (\<exists>p \<in> set (required_placeholders t). p \<notin> set (map fst pb))"
  proof
    assume "\<exists>p \<in> set (required_placeholders t). p \<notin> set (map fst pb)"
    then obtain p where "p \<in> set (required_placeholders t)" "p \<notin> set (map fst pb)" ..
    then have "to_mapping t pv pb = Inr None" by (rule to_mapping_missing_required)
    with assms show False by simp
  qed
  have kpp: "p \<in> set (map fst pb)"
    if "source_key_per_placeholder t = Some p \<or> dest_key_per_placeholder t = Some p" for p
    using that req required_source[of t p] required_dest[of t p] by blast
  show ?thesis
  proof (cases "per_placeholder_values (source_key_per_placeholder t) pv pb")
    case (Inl e1)
    with assms req have "e1 = e" by (simp add: to_mapping_def)
    with per_placeholder_values_Inl[OF Inl] kpp show ?thesis by blast
  next
    case sv: (Inr sv)
    show ?thesis
    proof (cases "templates_to_keys (source_template_keys t) pv (source_key_per_placeholder t) sv")
      case (Inl e2)
      with assms req sv have "e2 = e" by (simp add: to_mapping_def)
      with templates_to_keys_Inl[OF Inl] show ?thesis by simp
    next
      case sk: (Inr sk)
      show ?thesis
      proof (cases "per_placeholder_values (dest_key_per_placeholder t) pv pb")
        case (Inl e3)
        with assms req sv sk have "e3 = e" by (simp add: to_mapping_def)
        with per_placeholder_values_Inl[OF Inl] kpp show ?thesis by blast
      next
        case dv: (Inr dv)
        show ?thesis
        proof (cases "templates_to_keys (dest_template_keys t) pv (dest_key_per_placeholder t) dv")
          case (Inl e4)
          with assms req sv sk dv have "e4 = e" by (simp add: to_mapping_def)
          with templates_to_keys_Inl[OF Inl] show ?thesis by simp
        next
          case dk: (Inr dk)
          have False
          proof (cases "template_unflatten_dim t")
            case None
            with assms req sv sk dv dk show False
              by (simp add: to_mapping_def split: option.splits)
          next
            case (Some u)
            obtain d shp where u: "u = (d, shp)" by (cases u)
            have "\<forall>p. Placeholder p \<in> set shp \<longrightarrow> p \<in> set (map fst pb)"
              using req required_unflatten[of t d shp] Some u by blast
            from resolve_shape_ok[OF this] obtain ns where "resolve_shape pb shp = Inr ns" ..
            with assms req sv sk dv dk Some u show False
              by (simp add: to_mapping_def split: option.splits)
          qed
          then show ?thesis ..
        qed
      qed
    qed
  qed
qed

lemma py_dict_keys_aux:
  "set (map fst (foldl (\<lambda>d (k, v). AList.update k v d) d0 ps)) = set (map fst d0) \<union> set (map fst ps)"
proof (induction ps arbitrary: d0)
  case Nil
  then show ?case by simp
next
  case (Cons kv ps)
  obtain k v where kv: "kv = (k, v)" by (cases kv)
  have "set (map fst (AList.update k v d0)) = insert k (set (map fst d0))"
    using dom_update[of k v d0] by simp
  with Cons.IH[of "AList.update k v d0"] kv show ?case by simp
qed

lemma py_dict_keys: "set (map fst (py_dict ps)) = set (map fst ps)"
  unfolding py_dict_def using py_dict_keys_aux[of "[]" ps] by simp

lemma list_all2_fst_eq:
  "list_all2 (\<lambda>y x. fst y = fst x) ys xs \<Longrightarrow> map fst ys = map fst xs"
  by (induction rule: list_all2_induct) simp_all

lemma combination_keys:
  assumes "c \<in> set (placeholder_value_combinations pb)"
  shows "set (map fst c) = set (map fst pb)"
proof -
  let ?g = "\<lambda>(placeholder, bound).
              map (\<lambda>i. (placeholder, Some i)) (py_range bound) @ [(placeholder, None :: int option)]"
  from assms obtain ys where ys: "ys \<in> set (product_lists (map ?g pb))" and c: "c = py_dict ys"
    unfolding placeholder_value_combinations_def by auto
  from ys have "list_all2 (\<lambda>y zs. y \<in> set zs) ys (map ?g pb)"
    by (simp add: product_lists_set)
  then have "list_all2 (\<lambda>y x. y \<in> set (?g x)) ys pb"
    by (simp add: list_all2_map2)
  then have "list_all2 (\<lambda>y x. fst y = fst x) ys pb"
    by (rule list_all2_mono) auto
  then have "map fst ys = map fst pb" by (rule list_all2_fst_eq)
  then have "set (map fst ys) = set (map fst pb)" by (rule arg_cong)
  with py_dict_keys[of ys] c show ?thesis by (simp only:)
qed

subsection \<open>Strings\<close>

lemma str_contains_append_disjoint:
  assumes "p \<noteq> []" "set xs \<inter> set p = {}"
  shows "str_contains p (xs @ ys) = str_contains p ys"
  using assms(2)
proof (induction xs)
  case Nil
  then show ?case by simp
next
  case (Cons x xs)
  obtain a p' where p: "p = a # p'" using assms(1) by (cases p) auto
  from Cons.prems have "x \<noteq> a" using p by auto
  then have "\<not> prefix p (x # xs @ ys)" using p by simp
  moreover from Cons.prems have "set xs \<inter> set p = {}" by auto
  ultimately show ?case using Cons.IH by simp
qed

lemma prefix_replace_from:
  "prefix p (replace_from s old new) \<Longrightarrow> new \<noteq> [] \<Longrightarrow> set new \<inter> set p = {} \<Longrightarrow> prefix p s"
proof (induction s old new arbitrary: p rule: replace_from.induct)
  case (1 old new)
  then show ?case by simp
next
  case (2 c cs old new)
  show ?case
  proof (cases p)
    case Nil
    then show ?thesis by simp
  next
    case (Cons a p')
    show ?thesis
    proof (cases "prefix old (c # cs)")
      case True
      with "2.prems"(1) have pre: "prefix p (new @ replace_from (drop (length old - 1) cs) old new)"
        by simp
      obtain n new' where n: "new = n # new'" using "2.prems"(2) by (cases new) auto
      with pre Cons have "a = n" by simp
      with n Cons "2.prems"(3) have False by auto
      then show ?thesis ..
    next
      case False
      with "2.prems"(1) Cons have "a = c" and p': "prefix p' (replace_from cs old new)" by simp_all
      from "2.prems"(3) Cons have "set new \<inter> set p' = {}" by auto
      from "2.IH"(2)[OF False p' "2.prems"(2) this] \<open>a = c\<close> Cons show ?thesis by simp
    qed
  qed
qed

lemma str_contains_replace_from:
  "old \<noteq> [] \<Longrightarrow> new \<noteq> [] \<Longrightarrow> set new \<inter> set old = {} \<Longrightarrow>
     \<not> str_contains old (replace_from s old new)"
proof (induction s old new rule: replace_from.induct)
  case (1 old new)
  then show ?case by simp
next
  case (2 c cs old new)
  show ?case
  proof (cases "prefix old (c # cs)")
    case True
    from "2.IH"(1)[OF True "2.prems"]
    have "\<not> str_contains old (replace_from (drop (length old - 1) cs) old new)" .
    with str_contains_append_disjoint[OF "2.prems"(1,3)] True show ?thesis by simp
  next
    case False
    from "2.IH"(2)[OF False "2.prems"]
    have ih: "\<not> str_contains old (replace_from cs old new)" .
    have "\<not> prefix old (c # replace_from cs old new)"
    proof
      assume "prefix old (c # replace_from cs old new)"
      with False have "prefix old (replace_from (c # cs) old new)" by simp
      from prefix_replace_from[OF this "2.prems"(2,3)] False show False by simp
    qed
    with ih False show ?thesis by simp
  qed
qed

lemma str_contains_str_replace:
  "old \<noteq> [] \<Longrightarrow> new \<noteq> [] \<Longrightarrow> set new \<inter> set old = {} \<Longrightarrow>
     \<not> str_contains old (str_replace s old new)"
  by (simp add: str_replace_def str_contains_replace_from)

lemma str_nat_chars: "c \<in> set (str_nat n) \<Longrightarrow> (of_char c :: nat) \<le> 57"
proof (induction n arbitrary: c rule: str_nat.induct)
  case (1 n)
  show ?case
  proof (cases "n < 10")
    case True
    with "1.prems" have "c = char_of (48 + n)" by (subst (asm) str_nat.simps) simp
    with True show ?thesis by simp
  next
    case False
    with "1.prems" have "c \<in> set (str_nat (n div 10)) \<or> c = char_of (48 + n mod 10)"
      by (subst (asm) str_nat.simps) (simp, blast)
    then show ?thesis
    proof
      assume "c \<in> set (str_nat (n div 10))"
      from "1.IH"[OF False this] show ?thesis .
    next
      assume "c = char_of (48 + n mod 10)"
      moreover have "n mod 10 < 10" by simp
      ultimately show ?thesis by simp
    qed
  qed
qed

lemma str_nat_nonempty: "str_nat n \<noteq> []"
  by (subst str_nat.simps) simp

lemma str_int_chars: "c \<in> set (str_int i) \<Longrightarrow> (of_char c :: nat) \<le> 57"
  by (auto simp: str_int_def dest: str_nat_chars split: if_splits)

lemma str_int_nonempty: "str_int i \<noteq> []"
  by (simp add: str_int_def str_nat_nonempty)

lemma ph_str_chars: "c \<in> set (ph_str p) \<Longrightarrow> (of_char c :: nat) > 57"
  by (cases p) auto

lemma ph_str_nonempty: "ph_str p \<noteq> []"
  by (cases p) simp_all

lemma str_int_ph_str_disjoint: "set (str_int i) \<inter> set (ph_str p) = {}"
proof -
  have "c \<notin> set (ph_str p)" if "c \<in> set (str_int i)" for c
    using str_int_chars[OF that] ph_str_chars[of c p] by auto
  then show ?thesis by auto
qed

lemma placeholder_replaced:
  "\<not> str_contains (ph_str p) (str_replace s (ph_str p) (str_int i))"
  by (rule str_contains_str_replace[OF ph_str_nonempty str_int_nonempty str_int_ph_str_disjoint])

subsection \<open>A resolved mapping\<close>

lemma to_mapping_Some:
  assumes "to_mapping t pv pb = Inr (Some m)"
  shows "\<exists>sv dv. per_placeholder_values (source_key_per_placeholder t) pv pb = Inr sv
    \<and> templates_to_keys (source_template_keys t) pv (source_key_per_placeholder t) sv
        = Inr (Some (source_keys m))
    \<and> per_placeholder_values (dest_key_per_placeholder t) pv pb = Inr dv
    \<and> templates_to_keys (dest_template_keys t) pv (dest_key_per_placeholder t) dv
        = Inr (Some (dest_keys m))"
proof -
  have req: "\<not> (\<exists>p \<in> set (required_placeholders t). p \<notin> set (map fst pb))"
  proof
    assume "\<exists>p \<in> set (required_placeholders t). p \<notin> set (map fst pb)"
    then obtain p where "p \<in> set (required_placeholders t)" "p \<notin> set (map fst pb)" ..
    then have "to_mapping t pv pb = Inr None" by (rule to_mapping_missing_required)
    with assms show False by simp
  qed
  show ?thesis
  proof (cases "per_placeholder_values (source_key_per_placeholder t) pv pb")
    case (Inl e)
    with assms req show ?thesis by (simp add: to_mapping_def)
  next
    case sv: (Inr sv)
    show ?thesis
    proof (cases "templates_to_keys (source_template_keys t) pv (source_key_per_placeholder t) sv")
      case (Inl e)
      with assms req sv show ?thesis by (simp add: to_mapping_def)
    next
      case sk: (Inr sk)
      show ?thesis
      proof (cases "per_placeholder_values (dest_key_per_placeholder t) pv pb")
        case (Inl e)
        with assms req sv sk show ?thesis by (simp add: to_mapping_def)
      next
        case dv: (Inr dv)
        show ?thesis
        proof (cases "templates_to_keys (dest_template_keys t) pv (dest_key_per_placeholder t) dv")
          case (Inl e)
          with assms req sv sk dv show ?thesis by (simp add: to_mapping_def)
        next
          case dk: (Inr dk)
          from assms req sv sk dv dk obtain skeys dkeys
            where "sk = Some skeys" "dk = Some dkeys"
            by (cases sk; cases dk) (simp_all add: to_mapping_def)
          moreover from this assms req sv sk dv dk
          have "source_keys m = skeys \<and> dest_keys m = dkeys"
            by (cases "template_unflatten_dim t")
              (auto simp: to_mapping_def ebind_def split: sum.splits prod.splits)
          ultimately show ?thesis using sv sk dv dk by simp
        qed
      qed
    qed
  qed
qed

lemma py_range_4: "py_range 4 = [0, 1, 2, 3]"
  by code_simp

lemma source_states_present:
  "list_all2 (\<lambda>k v. map_of state_dict k = Some v) ks vs \<Longrightarrow> source_states state_dict ks = Inr vs"
  unfolding source_states_def
  by (induction rule: list_all2_induct) (simp_all add: getitem_def)

subsection \<open>The loop of the converter\<close>

lemma apply_mappings_unused:
  "apply_mappings ops sd ms (d, u) = Inr (d', u') \<Longrightarrow>
     u' = u - (\<Union>m \<in> set ms. set (source_keys m))"
proof (induction ms arbitrary: d u)
  case Nil
  then show ?case by simp
next
  case (Cons m ms)
  show ?case
  proof (cases "mapping_chunks ops sd m")
    case (Inl e)
    with Cons.prems show ?thesis by simp
  next
    case (Inr pairs)
    with Cons.prems
    have "apply_mappings ops sd ms (assign_all d pairs, u - set (source_keys m)) = Inr (d', u')"
      by simp
    from Cons.IH[OF this] show ?thesis by auto
  qed
qed

lemma apply_mappings_Inr_iff:
  "(\<exists>st'. apply_mappings ops sd ms st = Inr st')
     \<longleftrightarrow> (\<forall>m \<in> set ms. \<exists>pairs. mapping_chunks ops sd m = Inr pairs)"
proof (induction ms arbitrary: st)
  case Nil
  then show ?case by simp
next
  case (Cons m ms)
  obtain d u where st: "st = (d, u)" by (cases st)
  show ?case
  proof (cases "mapping_chunks ops sd m")
    case (Inl e)
    with st show ?thesis by simp
  next
    case (Inr pairs)
    with st Cons.IH[of "(assign_all d pairs, u - set (source_keys m))"] show ?thesis by simp
  qed
qed

lemma apply_mappings_Inl:
  "apply_mappings ops sd ms st = Inl e \<Longrightarrow> \<exists>m \<in> set ms. mapping_chunks ops sd m = Inl e"
proof (induction ms arbitrary: st)
  case Nil
  then show ?case by simp
next
  case (Cons m ms)
  obtain d u where st: "st = (d, u)" by (cases st)
  show ?case
  proof (cases "mapping_chunks ops sd m")
    case (Inl e')
    with st Cons.prems show ?thesis by simp
  next
    case (Inr pairs)
    with st Cons.prems
    have "apply_mappings ops sd ms (assign_all d pairs, u - set (source_keys m)) = Inl e"
      by simp
    from Cons.IH[OF this] show ?thesis by auto
  qed
qed

lemma apply_mappings_first_error:
  assumes "\<forall>m' \<in> set ms1. \<exists>pairs. mapping_chunks ops sd m' = Inr pairs"
    and "mapping_chunks ops sd m = Inl e"
  shows "apply_mappings ops sd (ms1 @ m # ms2) st = Inl e"
  using assms(1)
proof (induction ms1 arbitrary: st)
  case Nil
  obtain d u where st: "st = (d, u)" by (cases st)
  with assms(2) show ?case by simp
next
  case (Cons m' ms1)
  obtain d u where st: "st = (d, u)" by (cases st)
  from Cons.prems obtain pairs where "mapping_chunks ops sd m' = Inr pairs" by auto
  moreover from Cons.prems have "\<forall>m' \<in> set ms1. \<exists>pairs. mapping_chunks ops sd m' = Inr pairs"
    by simp
  ultimately show ?case using st Cons.IH by simp
qed

lemma mapping_chunks_non_tensor:
  assumes "source_keys m = k # ks" "map_of sd k = Some (OtherValue x)"
  shows "mapping_chunks ops sd m = Inl (NonTensorStates (length (source_keys m)) (length (dest_keys m)))"
  using assms by (simp add: mapping_chunks_def Let_def getitem_def)

lemma mapping_chunks_first_tensor:
  assumes "mapping_chunks ops sd m = Inr pairs"
  shows "\<exists>k ks t. source_keys m = k # ks \<and> map_of sd k = Some (TensorValue t)"
proof (cases "source_keys m")
  case Nil
  with assms show ?thesis by (simp add: mapping_chunks_def Let_def)
next
  case (Cons k ks)
  show ?thesis
  proof (cases "map_of sd k")
    case None
    with assms Cons show ?thesis by (simp add: mapping_chunks_def Let_def getitem_def)
  next
    case (Some v)
    show ?thesis
    proof (cases v)
      case (TensorValue t)
      with Cons Some show ?thesis by simp
    next
      case (OtherValue x)
      with assms mapping_chunks_non_tensor[of m k ks sd x ops] Cons Some show ?thesis by simp
    qed
  qed
qed

lemma collect_Inr_all2: "collect f xs = Inr ys \<Longrightarrow> list_all2 (\<lambda>x y. f x = Inr y) xs ys"
proof (induction xs arbitrary: ys)
  case Nil
  then show ?case by simp
next
  case (Cons x xs)
  show ?case
  proof (cases "f x")
    case (Inl e)
    with Cons.prems show ?thesis by simp
  next
    case fx: (Inr y)
    show ?thesis
    proof (cases "collect f xs")
      case (Inl e)
      with Cons.prems fx show ?thesis by simp
    next
      case (Inr ys')
      with Cons.prems fx have "ys = y # ys'" by simp
      with Cons.IH[OF Inr] fx show ?thesis by simp
    qed
  qed
qed

lemma tensors_of_Some: "tensors_of vs = Some ts \<Longrightarrow> v \<in> set vs \<Longrightarrow> \<exists>t. v = TensorValue t"
proof (induction vs arbitrary: ts rule: tensors_of.induct)
  case 1
  then show ?case by simp
next
  case (2 t vs)
  then show ?case by (cases "tensors_of vs") auto
next
  case (3 x vs)
  then show ?case by simp
qed

lemma torch_cat_Inr_tensors: "torch_cat vs d = Inr t \<Longrightarrow> \<exists>ts. tensors_of vs = Some ts"
  by (cases "tensors_of vs") (simp_all add: torch_cat_def)

lemma mapping_chunks_Inr_cat:
  assumes "mapping_chunks ops sd m = Inr pairs"
  shows "\<exists>states t. source_states sd (source_keys m) = Inr states
    \<and> cat ops states (source_concat_dim m) = Inr t"
proof -
  from mapping_chunks_first_tensor[OF assms] obtain k ks t0
    where k: "source_keys m = k # ks" "map_of sd k = Some (TensorValue t0)"
    by blast
  show ?thesis
  proof (cases "source_states sd (source_keys m)")
    case (Inl e)
    with assms k show ?thesis by (simp add: mapping_chunks_def Let_def getitem_def)
  next
    case (Inr states)
    show ?thesis
    proof (cases "cat ops states (source_concat_dim m)")
      case (Inl e)
      with assms k Inr show ?thesis by (simp add: mapping_chunks_def Let_def getitem_def)
    next
      case c: (Inr t)
      with Inr show ?thesis by blast
    qed
  qed
qed

lemma list_all2_member: "list_all2 P xs ys \<Longrightarrow> x \<in> set xs \<Longrightarrow> \<exists>y \<in> set ys. P x y"
  by (induction rule: list_all2_induct) auto

lemma mapping_chunks_torch_tensors:
  assumes "mapping_chunks torch sd m = Inr pairs" and "k \<in> set (source_keys m)"
  shows "\<exists>t. map_of sd k = Some (TensorValue t)"
proof -
  from mapping_chunks_Inr_cat[OF assms(1)] obtain states t
    where s: "source_states sd (source_keys m) = Inr states"
      and c: "torch_cat states (source_concat_dim m) = Inr t"
    by (auto simp: torch_def)
  from torch_cat_Inr_tensors[OF c] obtain ts where ts: "tensors_of states = Some ts" ..
  from s have "list_all2 (\<lambda>k v. getitem sd k = Inr v) (source_keys m) states"
    unfolding source_states_def by (rule collect_Inr_all2)
  from list_all2_member[OF this assms(2)] have "\<exists>v \<in> set states. getitem sd k = Inr v" .
  then obtain v where v: "v \<in> set states" "getitem sd k = Inr v" by blast
  from tensors_of_Some[OF ts v(1)] obtain t' where "v = TensorValue t'" ..
  with v(2) show ?thesis by (simp add: getitem_Inr)
qed

lemma mapping_chunks_four_keys:
  assumes "source_keys m = [k0, k1, k2, k3]"
    and "map_of sd k0 = Some (TensorValue t0)"
    and "map_of sd k1 = Some v1"
    and "map_of sd k2 = Some v2"
    and "map_of sd k3 = Some v3"
  shows "mapping_chunks ops sd m
    = ebind (cat ops [TensorValue t0, v1, v2, v3] (source_concat_dim m)) (reshape_and_chunk ops m)"
  using assms by (simp add: mapping_chunks_def Let_def getitem_def source_states_def)

lemma assign_all_Nil: "assign_all d [] = d"
  by (simp add: assign_all_def)

lemma assign_all_append: "assign_all (assign_all d ps) qs = assign_all d (ps @ qs)"
  by (simp add: assign_all_def)

lemma map_of_assign_all:
  "map_of (assign_all d ps) k
     = (case map_of (rev ps) k of None \<Rightarrow> map_of d k | Some v \<Rightarrow> Some v)"
proof (induction ps arbitrary: d)
  case Nil
  then show ?case by (simp add: assign_all_def)
next
  case (Cons p ps)
  obtain k' v' where p: "p = (k', v')" by (cases p)
  have "assign_all d (p # ps) = assign_all (AList.update k' v' d) ps"
    by (simp add: assign_all_def p)
  then have "map_of (assign_all d (p # ps)) k
      = (case map_of (rev ps) k of None \<Rightarrow> map_of (AList.update k' v' d) k | Some v \<Rightarrow> Some v)"
    by (simp only: Cons.IH)
  then show ?case
    by (simp add: p update_conv' map_add_def split: option.splits)
qed

lemma apply_mappings_writes:
  assumes "list_all2 (\<lambda>m pairs. mapping_chunks ops sd m = Inr pairs) ms chunks"
  shows "apply_mappings ops sd ms (d, u)
    = Inr (assign_all d (concat chunks), u - (\<Union>m \<in> set ms. set (source_keys m)))"
  using assms
proof (induction arbitrary: d u rule: list_all2_induct)
  case Nil
  then show ?case by (simp add: assign_all_Nil)
next
  case (Cons m ms pairs chunks)
  have "u - set (source_keys m) - (\<Union>m \<in> set ms. set (source_keys m))
      = u - (\<Union>m \<in> set (m # ms). set (source_keys m))"
    by auto
  with Cons show ?case by (simp add: assign_all_append)
qed

subsection \<open>Concatenation and chunking along the first dimension\<close>

lemma get_mappings_keys:
  "map fst sd = map fst sd' \<Longrightarrow> get_mappings ts sd pb = get_mappings ts sd' pb"
  by (simp add: get_mappings_def)

lemma torch_cat_pair:
  assumes wf0: "well_formed T0" and wf1: "well_formed T1"
    and eq: "shape T1 = shape T0" and shp: "shape T0 = n # rest"
  shows "torch_cat [TensorValue T0, TensorValue T1] 0
    = Inr (Tensor ((n + n) # rest) (elems T0 @ elems T1))"
proof (cases "shape T0 = [0]")
  case True
  with shp have n: "n = 0" "rest = []" by simp_all
  from True wf0 have e0: "elems T0 = []" by (simp add: well_formed_def)
  from True eq wf1 have e1: "elems T1 = []" by (simp add: well_formed_def)
  from True eq show ?thesis by (simp add: torch_cat_def n e0 e1)
next
  case False
  have w: "wrap_dim 0 (Suc (length rest)) = Inr 0"
    by (simp add: wrap_dim_def)
  from False shp have nz: "\<not> (n = 0 \<and> rest = [])" by simp
  have l0: "take (prod_list (shape T0)) (elems T0) = elems T0"
    using wf0 by (simp add: well_formed_def)
  have l1: "take (prod_list (shape T0)) (elems T1) = elems T1"
    using wf1 eq by (simp add: well_formed_def)
  have c: "cat_elems 0 [] [T0, T1] = elems T0 @ elems T1"
    using l0 l1 by (simp add: cat_elems_def eq)
  show ?thesis
    unfolding torch_cat_def
    using nz by (simp add: w c eq shp)
qed

lemma narrow_first_dim:
  "narrow (Tensor (m # rest) xs) 0 start len
     = Tensor (len # rest) (take (len * prod_list rest) (drop (start * prod_list rest) xs))"
  by (simp add: narrow_def narrow_elems_def Let_def)

lemma torch_chunk_pair:
  assumes l0: "length e0 = n * prod_list rest" and l1: "length e1 = n * prod_list rest"
  shows "torch_chunk (Tensor ((n + n) # rest) (e0 @ e1)) 2 0
    = Inr [Tensor (n # rest) e0, Tensor (n # rest) e1]"
proof -
  have w: "wrap_dim 0 (Suc (length rest)) = Inr 0"
    by (simp add: wrap_dim_def)
  have split: "(n + n + nat 2 - 1) div nat 2 = n" by simp
  show ?thesis
  proof (cases "n = 0")
    case True
    with l0 l1 have e: "e0 = []" "e1 = []" by simp_all
    have r: "replicate 2 x = [x, x]" for x :: "'a tensor"
      by (simp add: numeral_2_eq_2)
    show ?thesis
      unfolding torch_chunk_def
      by (simp add: w True e r narrow_first_dim Let_def)
  next
    case False
    then have "(n + n + n - 1) div n = 2"
      by (intro div_nat_eqI) simp_all
    then have count: "max ((n + n + n - Suc 0) div n) (Suc 0) = 2" by simp
    have up: "[0 ..< 2] = [0, Suc 0]" by (simp add: upt_rec)
    have t0: "take (n * prod_list rest) (e0 @ e1) = e0" using l0 by simp
    have t1: "take (n * prod_list rest) (drop (n * prod_list rest) (e0 @ e1)) = e1"
      using l0 l1 by simp
    show ?thesis
      unfolding torch_chunk_def
      using False
      by (simp add: w split count up narrow_first_dim l0 l1 Let_def)
  qed
qed

subsection \<open>The heap\<close>

lemma setitem_length [simp]: "length (setitem h d k v) = length h"
  by (simp add: setitem_def)

lemma setitem_other: "a \<noteq> d \<Longrightarrow> setitem h d k v ! a = h ! a"
  by (simp add: setitem_def)

lemma setitem_at: "d < length h \<Longrightarrow> setitem h d k v ! d = AList.update k v (h ! d)"
  by (simp add: setitem_def)

lemma update_apsnd:
  "AList.update k (f v) (map (apsnd f) xs) = map (apsnd f) (AList.update k v xs)"
  by (induction xs) auto

lemma assign_all_heap_length [simp]: "length (assign_all_heap h d pairs) = length h"
  unfolding assign_all_heap_def
  by (induction pairs arbitrary: h) (auto simp: split_def)

lemma assign_all_heap_other: "a \<noteq> d \<Longrightarrow> assign_all_heap h d pairs ! a = h ! a"
  unfolding assign_all_heap_def
  by (induction pairs arbitrary: h) (auto simp: split_def setitem_other)

lemma assign_all_heap_at:
  "d < length h \<Longrightarrow> h ! d = map (apsnd TensorValue) xs \<Longrightarrow>
     assign_all_heap h d pairs ! d = map (apsnd TensorValue) (assign_all xs pairs)"
  unfolding assign_all_heap_def assign_all_def
proof (induction pairs arbitrary: h xs)
  case Nil
  then show ?case by simp
next
  case (Cons p pairs)
  obtain k v where p: "p = (k, v)" by (cases p)
  have "setitem h d k (TensorValue v) ! d = map (apsnd TensorValue) (AList.update k v xs)"
    using Cons.prems by (simp add: setitem_at update_apsnd)
  with Cons.IH[of "setitem h d k (TensorValue v)" "AList.update k v xs"] Cons.prems(1)
  show ?case by (simp add: p)
qed

lemma apply_mappings_heap_simulation:
  assumes "d < length h" and "sd \<noteq> d" and "h ! d = map (apsnd TensorValue) xs"
  shows "\<exists>h'. length h' = length h \<and> (\<forall>a. a \<noteq> d \<longrightarrow> h' ! a = h ! a)
    \<and> (case apply_mappings ops (h ! sd) ms (xs, u) of
          Inl e \<Rightarrow> apply_mappings_heap ops sd ms (h, d, u) = (h', Inl e)
        | Inr (xs', u') \<Rightarrow> apply_mappings_heap ops sd ms (h, d, u) = (h', Inr u')
            \<and> h' ! d = map (apsnd TensorValue) xs')"
  using assms
proof (induction ms arbitrary: h xs u)
  case Nil
  then show ?case by simp
next
  case (Cons m ms)
  show ?case
  proof (cases "mapping_chunks ops (h ! sd) m")
    case (Inl e)
    then show ?thesis by simp
  next
    case (Inr pairs)
    let ?h = "assign_all_heap h d pairs"
    have l: "d < length ?h" using Cons.prems(1) by simp
    have at: "?h ! d = map (apsnd TensorValue) (assign_all xs pairs)"
      using Cons.prems(1,3) by (rule assign_all_heap_at)
    have src: "?h ! sd = h ! sd" using Cons.prems(2) by (rule assign_all_heap_other)
    from Cons.IH[OF l Cons.prems(2) at, of "u - set (source_keys m)"] obtain h'
      where h': "length h' = length ?h" "\<forall>a. a \<noteq> d \<longrightarrow> h' ! a = ?h ! a"
        "case apply_mappings ops (?h ! sd) ms (assign_all xs pairs, u - set (source_keys m)) of
           Inl e \<Rightarrow> apply_mappings_heap ops sd ms (?h, d, u - set (source_keys m)) = (h', Inl e)
         | Inr (xs', u') \<Rightarrow>
             apply_mappings_heap ops sd ms (?h, d, u - set (source_keys m)) = (h', Inr u')
             \<and> h' ! d = map (apsnd TensorValue) xs'"
      by blast
    from h'(1) have a: "length h' = length h" by simp
    from h'(2) have b: "\<forall>a. a \<noteq> d \<longrightarrow> h' ! a = h ! a"
      by (simp add: assign_all_heap_other)
    have step: "apply_mappings_heap ops sd (m # ms) (h, d, u)
        = apply_mappings_heap ops sd ms (?h, d, u - set (source_keys m))"
      by (simp add: Inr)
    have step': "apply_mappings ops (h ! sd) (m # ms) (xs, u)
        = apply_mappings ops (h ! sd) ms (assign_all xs pairs, u - set (source_keys m))"
      by (simp add: Inr)
    have c: "case apply_mappings ops (h ! sd) (m # ms) (xs, u) of
          Inl e \<Rightarrow> apply_mappings_heap ops sd (m # ms) (h, d, u) = (h', Inl e)
        | Inr (xs', u') \<Rightarrow> apply_mappings_heap ops sd (m # ms) (h, d, u) = (h', Inr u')
            \<and> h' ! d = map (apsnd TensorValue) xs'"
      unfolding step step' using h'(3)[unfolded src] .
    from a b c show ?thesis by blast
  qed
qed

lemma convert_heap_simulation:
  assumes "state_dict < length h"
  shows "\<exists>h'. length h' = Suc (length h) \<and> (\<forall>a < length h. h' ! a = h ! a)
    \<and> (case convert ops ts (h ! state_dict) pb of
          Inl e \<Rightarrow> (\<exists>h''. convert_heap ops ts h state_dict pb = (h'', Inl e)
                      \<and> (h'' = h \<or> h'' = h'))
        | Inr converted \<Rightarrow> convert_heap ops ts h state_dict pb = (h', Inr (length h))
            \<and> h' ! length h = map (apsnd TensorValue) converted)"
proof (cases "get_mappings ts (h ! state_dict) pb")
  case (Inl e)
  have "length (h @ [[]]) = Suc (length h) \<and> (\<forall>a < length h. (h @ [[]]) ! a = h ! a)"
    by (simp add: nth_append)
  moreover have "convert ops ts (h ! state_dict) pb = Inl e"
    by (simp add: convert_def Inl)
  moreover have "convert_heap ops ts h state_dict pb = (h, Inl e)"
    by (simp add: convert_heap_def get_mappings_heap_def Inl)
  ultimately show ?thesis by (intro exI[of _ "h @ [[]]"]) simp
next
  case (Inr ms)
  let ?h1 = "h @ [[]]"
  let ?d = "length h"
  let ?u = "set (map fst (h ! state_dict))"
  have d: "?d < length ?h1" by simp
  have ne: "state_dict \<noteq> ?d" using assms by simp
  have e: "?h1 ! ?d = map (apsnd TensorValue) []" by simp
  have src: "?h1 ! state_dict = h ! state_dict" using assms by (simp add: nth_append)
  from apply_mappings_heap_simulation[OF d ne e, of ops ms ?u] obtain h'
    where h': "length h' = length ?h1" "\<forall>a. a \<noteq> ?d \<longrightarrow> h' ! a = ?h1 ! a"
      "case apply_mappings ops (?h1 ! state_dict) ms ([], ?u) of
         Inl e \<Rightarrow> apply_mappings_heap ops state_dict ms (?h1, ?d, ?u) = (h', Inl e)
       | Inr (xs', u') \<Rightarrow> apply_mappings_heap ops state_dict ms (?h1, ?d, ?u) = (h', Inr u')
           \<and> h' ! ?d = map (apsnd TensorValue) xs'"
    by blast
  from h'(1) have a: "length h' = Suc (length h)" by simp
  from h'(2) have b: "\<forall>a < length h. h' ! a = h ! a" by (simp add: nth_append)
  have c: "case convert ops ts (h ! state_dict) pb of
          Inl e \<Rightarrow> (\<exists>h''. convert_heap ops ts h state_dict pb = (h'', Inl e)
                      \<and> (h'' = h \<or> h'' = h'))
        | Inr converted \<Rightarrow> convert_heap ops ts h state_dict pb = (h', Inr (length h))
            \<and> h' ! length h = map (apsnd TensorValue) converted"
  proof (cases "apply_mappings ops (h ! state_dict) ms ([], ?u)")
    case (Inl e)
    with h'(3) src
    have "apply_mappings_heap ops state_dict ms (?h1, ?d, ?u) = (h', Inl e)" by simp
    then have "convert_heap ops ts h state_dict pb = (h', Inl e)"
      by (simp add: convert_heap_def get_mappings_heap_def Inr new_dict_def)
    moreover have "convert ops ts (h ! state_dict) pb = Inl e"
      using Inl by (simp add: convert_def Inr)
    ultimately show ?thesis by simp
  next
    case r: (Inr st)
    obtain xs' u' where st: "st = (xs', u')" by (cases st)
    with h'(3) src r
    have l: "apply_mappings_heap ops state_dict ms (?h1, ?d, ?u) = (h', Inr u')"
      and v: "h' ! ?d = map (apsnd TensorValue) xs'"
      by simp_all
    show ?thesis
    proof (cases "u' = {}")
      case True
      have "convert_heap ops ts h state_dict pb = (h', Inr (length h))"
        using l True by (simp add: convert_heap_def get_mappings_heap_def Inr new_dict_def)
      moreover have "convert ops ts (h ! state_dict) pb = Inr xs'"
        using True r by (simp add: convert_def Inr st)
      ultimately show ?thesis using v by simp
    next
      case False
      have "convert_heap ops ts h state_dict pb
          = (h', Inl (UnconvertedKeys (sorted_list_of_set u')))"
        using l False by (simp add: convert_heap_def get_mappings_heap_def Inr new_dict_def)
      moreover have "convert ops ts (h ! state_dict) pb
          = Inl (UnconvertedKeys (sorted_list_of_set u'))"
        using False r by (simp add: convert_def Inr st)
      ultimately show ?thesis by simp
    qed
  qed
  from a b c show ?thesis by blast
qed

section \<open>Uneven chunks\<close>

text \<open>
  Claim C2 (the code differs). A mapping that splits a size-10 axis into 3 destination
  keys is said to raise a shape error. \<^verbatim>\<open>convert\<close> calls \<^verbatim>\<open>torch.chunk\<close> and does
  not compare the sizes: on a tensor of shape \<open>[10]\<close> the call returns chunks of sizes
  4, 4 and 2, and \<^verbatim>\<open>convert\<close> returns them under the three keys.
\<close>

theorem convert_uneven_chunks:
  "convert (torch :: (int tensor, unit) tensor_ops) [uneven_template]
     [(''w'', TensorValue (Tensor [10] [0, 1, 2, 3, 4, 5, 6, 7, 8, 9]))] []
   = Inr [(''a'', Tensor [4] [0, 1, 2, 3]), (''b'', Tensor [4] [4, 5, 6, 7]),
          (''c'', Tensor [2] [8, 9])]"
  by code_simp

section \<open>Placeholders without a bound\<close>

lemma get_mappings_skip:
  assumes "\<And>c. to_mapping t c pb = Inr None"
  shows "get_mappings (ts1 @ t # ts2) sd pb = get_mappings (ts1 @ ts2) sd pb"
proof -
  let ?f = "\<lambda>(mapping_template, combination). to_mapping mapping_template combination pb"
  let ?blk = "\<lambda>mapping_template. map (\<lambda>combination. (mapping_template, combination))
                                (placeholder_value_combinations pb)"
  have "\<forall>x \<in> set (?blk t). ?f x = Inr None" using assms by auto
  then have blk: "collect ?f (?blk t) = Inr (map (\<lambda>x. None) (?blk t))"
    by (rule collect_const)
  show ?thesis
    unfolding get_mappings_def
    by (simp add: collect_append blk split: sum.splits)
qed

text \<open>
  Claim C3 (amended). A template that requires \<^verbatim>\<open>TemplatePlaceholder.EXPERT\<close>, as its
  source or destination per-placeholder field or in the shape of \<^verbatim>\<open>unflatten_dim\<close>,
  resolves to not-applicable for every placeholder value assignment when the bounds have
  no entry for \<^verbatim>\<open>EXPERT\<close>, and contributes nothing to \<^verbatim>\<open>get_mappings\<close>.
\<close>

theorem required_placeholder_without_bound:
  assumes "EXPERT \<in> set (required_placeholders t)"
    and "EXPERT \<notin> set (map fst placeholder_bounds)"
  shows "to_mapping t placeholder_values placeholder_bounds = Inr None
    \<and> get_mappings (ts1 @ t # ts2) state_dict placeholder_bounds
        = get_mappings (ts1 @ ts2) state_dict placeholder_bounds"
proof
  show "to_mapping t placeholder_values placeholder_bounds = Inr None"
    using assms by (rule to_mapping_missing_required)
  show "get_mappings (ts1 @ t # ts2) state_dict placeholder_bounds
        = get_mappings (ts1 @ ts2) state_dict placeholder_bounds"
    by (rule get_mappings_skip) (rule to_mapping_missing_required[OF assms])
qed

theorem required_placeholder_without_bound_witness:
  "EXPERT \<in> set (required_placeholders per_expert_template)
   \<and> EXPERT \<notin> set (map fst [(LAYER, 2 :: int)])
   \<and> to_mapping per_expert_template [(LAYER, Some 0)] [(LAYER, 2)] = Inr None
   \<and> get_mappings [per_expert_template] [(''experts.0.w'', ())] [(LAYER, 2)] = Inr []"
proof -
  have a: "EXPERT \<in> set (required_placeholders per_expert_template)"
    by (simp add: required_placeholders_def per_expert_template_def)
  have b: "EXPERT \<notin> set (map fst [(LAYER, 2 :: int)])" by simp
  have c: "get_mappings [] [(''experts.0.w'', ())] [(LAYER, 2)] = Inr []"
    by (simp add: get_mappings_def)
  show ?thesis
    using required_placeholder_without_bound[OF a b, of "[(LAYER, Some 0)]" "[]" "[]"
        "[(''experts.0.w'', ())]"] a b c
    by simp
qed

text \<open>
  A template that only mentions \<^verbatim>\<open>[expert]\<close> in its key strings is not rejected:
  with no bound for \<^verbatim>\<open>EXPERT\<close> it resolves to a mapping, with an assigned value
  substituted, or with the placeholder text left in the key when the assignment has no
  entry for it, as in every call made by \<^verbatim>\<open>get_mappings\<close>.
\<close>

theorem placeholder_in_key_without_bound_counterexample:
  "str_contains (ph_str EXPERT) ''experts.[expert].w''
   \<and> EXPERT \<notin> set (map fst ([] :: (TemplatePlaceholder \<times> int) list))
   \<and> to_mapping expert_key_template [(EXPERT, Some 1)] []
       = Inr (Some \<lparr> source_keys = [''experts.1.w''], dest_keys = [''mlp.1.w''],
                      source_concat_dim = 0, unflatten_dim = None, dims_permutation = None,
                      flatten_dims = None, dest_chunk_dim = 0 \<rparr>)
   \<and> get_mappings [expert_key_template] [(''experts.[expert].w'', ())] []
       = Inr [\<lparr> source_keys = [''experts.[expert].w''], dest_keys = [''mlp.[expert].w''],
                 source_concat_dim = 0, unflatten_dim = None, dims_permutation = None,
                 flatten_dims = None, dest_chunk_dim = 0 \<rparr>]"
  by code_simp


section \<open>Partial assignments\<close>

lemma to_mapping_source_KeyError:
  assumes "source_key_per_placeholder t = Some p"
    and "set (required_placeholders t) \<subseteq> set (map fst pb)"
    and "p \<notin> set (map fst pv)"
  shows "to_mapping t pv pb = Inl KeyError"
proof -
  have req: "\<not> (\<exists>p \<in> set (required_placeholders t). p \<notin> set (map fst pb))"
    using assms(2) by blast
  have "per_placeholder_values (source_key_per_placeholder t) pv pb = Inl KeyError"
    using assms(1,3) by (simp add: per_placeholder_values_missing)
  with req show ?thesis by (simp add: to_mapping_def)
qed

lemma to_mapping_dest_raises:
  assumes "dest_key_per_placeholder t = Some p"
    and "set (required_placeholders t) \<subseteq> set (map fst pb)"
    and "p \<notin> set (map fst pv)"
  shows "to_mapping t pv pb = Inl KeyError \<or> to_mapping t pv pb = Inl AssertionError"
proof -
  have req: "\<not> (\<exists>p \<in> set (required_placeholders t). p \<notin> set (map fst pb))"
    using assms(2) by blast
  have dest: "per_placeholder_values (dest_key_per_placeholder t) pv pb = Inl KeyError"
    using assms(1,3) by (simp add: per_placeholder_values_missing)
  show ?thesis
  proof (cases "per_placeholder_values (source_key_per_placeholder t) pv pb")
    case (Inl e)
    with req have "to_mapping t pv pb = Inl e" by (simp add: to_mapping_def)
    with per_placeholder_values_Inl[OF Inl] show ?thesis by simp
  next
    case sv: (Inr sv)
    show ?thesis
    proof (cases "templates_to_keys (source_template_keys t) pv (source_key_per_placeholder t) sv")
      case (Inl e)
      with req sv have "to_mapping t pv pb = Inl e" by (simp add: to_mapping_def)
      with templates_to_keys_Inl[OF Inl] show ?thesis by simp
    next
      case (Inr sk)
      with req sv dest have "to_mapping t pv pb = Inl KeyError" by (simp add: to_mapping_def)
      then show ?thesis ..
    qed
  qed
qed

lemma to_mapping_total_assignment:
  assumes "set (map fst pb) \<subseteq> set (map fst pv)"
  shows "to_mapping t pv pb \<noteq> Inl KeyError"
proof
  assume "to_mapping t pv pb = Inl KeyError"
  from to_mapping_Inl[OF this] obtain p
    where "p \<in> set (map fst pb)" "p \<notin> set (map fst pv)" by auto
  with assms show False by blast
qed

lemma get_mappings_no_KeyError: "get_mappings ts sd pb \<noteq> Inl KeyError"
proof
  assume h: "get_mappings ts sd pb = Inl KeyError"
  let ?f = "\<lambda>(mapping_template, combination). to_mapping mapping_template combination pb"
  let ?xs = "concat (map (\<lambda>mapping_template.
                            map (\<lambda>combination. (mapping_template, combination))
                              (placeholder_value_combinations pb)) ts)"
  have "collect ?f ?xs = Inl KeyError"
  proof (cases "collect ?f ?xs")
    case (Inl e)
    with h show ?thesis by (simp add: get_mappings_def)
  next
    case (Inr ms)
    with h show ?thesis by (simp add: get_mappings_def)
  qed
  from collect_Inl[OF this] obtain x where x: "x \<in> set ?xs" "?f x = Inl KeyError" ..
  obtain t c where tc: "x = (t, c)" by (cases x)
  from x(1) tc have "c \<in> set (placeholder_value_combinations pb)" by auto
  from combination_keys[OF this] have "set (map fst pb) \<subseteq> set (map fst c)" by simp
  from to_mapping_total_assignment[OF this, of t] x(2) tc show False by simp
qed




section \<open>Key materialization\<close>

lemma fill_key_mismatch:
  "fill_key template pv key =
     (if \<exists>item \<in> set pv. mismatch template item then None
      else Some (substitute_values pv key))"
proof (induction pv arbitrary: key)
  case Nil
  then show ?case by simp
next
  case (Cons item items)
  obtain p v where item: "item = (p, v)" by (cases item)
  show ?case
  proof (cases v)
    case None
    with item Cons.IH[of key] show ?thesis by simp
  next
    case (Some i)
    with item Cons.IH[of "str_replace key (ph_str p) (str_int i)"] show ?thesis by simp
  qed
qed

lemma fill_keys_mismatch:
  "fill_keys templates pv =
     (if \<exists>template \<in> set templates. \<exists>item \<in> set pv. mismatch template item then None
      else Some (map (substitute_values pv) templates))"
  by (induction templates) (simp_all add: fill_key_mismatch)

text \<open>
  Claim C8 (amended). Key materialization returns not-applicable whenever some template
  string (after the per-placeholder expansion, when there is one) and some entry of the
  assignment mismatch, in either direction. When no entry mismatches, every placeholder
  that has a concrete value in the assignment is substituted in every string by the
  string form of its value. The loop runs over the entries of the assignment only: a
  placeholder of the string with no entry at all is neither checked nor substituted.
\<close>

theorem key_materialization:
  "templates_to_keys (Single s) placeholder_values None vals =
     Inr (if \<exists>item \<in> set placeholder_values. mismatch s item then None
          else Some [substitute_values placeholder_values s])
   \<and> templates_to_keys (Multi ss) placeholder_values None vals =
     Inr (if \<exists>template \<in> set ss. \<exists>item \<in> set placeholder_values. mismatch template item
          then None
          else Some (map (substitute_values placeholder_values) ss))
   \<and> (str_contains (ph_str p) s \<longrightarrow>
        templates_to_keys (Single s) placeholder_values (Some p) (Some indices) =
          Inr (if \<exists>i \<in> set indices. \<exists>item \<in> set placeholder_values.
                    mismatch (str_replace s (ph_str p) (str_int i)) item
               then None
               else Some (map (\<lambda>i. substitute_values placeholder_values
                                      (str_replace s (ph_str p) (str_int i))) indices)))"
  by (simp add: templates_to_keys_def fill_keys_mismatch comp_def)

theorem key_materialization_witness:
  "templates_to_keys (Single ''blocks.[layer].w'') [(LAYER, Some 3), (EXPERT, None)] None None
     = Inr (Some [''blocks.3.w''])
   \<and> templates_to_keys (Multi [''blocks.[layer].w'', ''norm.w'']) [(LAYER, Some 3)] None None
     = Inr None
   \<and> str_contains (ph_str EXPERT) ''blocks.[layer].experts.[expert].w''
   \<and> templates_to_keys (Single ''blocks.[layer].experts.[expert].w'')
       [(LAYER, Some 3), (EXPERT, None)] (Some EXPERT) (Some [0, 1])
     = Inr (Some [''blocks.3.experts.0.w'', ''blocks.3.experts.1.w''])"
proof -
  have c: "str_contains (ph_str EXPERT) ''blocks.[layer].experts.[expert].w''"
    by code_simp
  have e1: "(if \<exists>item \<in> set [(LAYER, Some 3), (EXPERT, None)]. mismatch ''blocks.[layer].w'' item
             then None
             else Some [substitute_values [(LAYER, Some 3), (EXPERT, None)] ''blocks.[layer].w''])
            = Some [''blocks.3.w'']"
    by code_simp
  have e2: "(if \<exists>template \<in> set [''blocks.[layer].w'', ''norm.w''].
                  \<exists>item \<in> set [(LAYER, Some 3)]. mismatch template item
             then None
             else Some (map (substitute_values [(LAYER, Some 3)])
                          [''blocks.[layer].w'', ''norm.w'']))
            = None"
    by code_simp
  have e3: "(if \<exists>i \<in> set [0, 1]. \<exists>item \<in> set [(LAYER, Some 3), (EXPERT, None)].
                  mismatch (str_replace ''blocks.[layer].experts.[expert].w'' (ph_str EXPERT)
                              (str_int i)) item
             then None
             else Some (map (\<lambda>i. substitute_values [(LAYER, Some 3), (EXPERT, None)]
                                    (str_replace ''blocks.[layer].experts.[expert].w''
                                       (ph_str EXPERT) (str_int i))) [0, 1]))
            = Some [''blocks.3.experts.0.w'', ''blocks.3.experts.1.w'']"
    by code_simp
  from key_materialization[of "''blocks.[layer].w''" "[(LAYER, Some 3), (EXPERT, None)]" None
      "[]" EXPERT "[]"]
  have r1: "templates_to_keys (Single ''blocks.[layer].w'') [(LAYER, Some 3), (EXPERT, None)]
              None None = Inr (Some [''blocks.3.w''])"
    by (simp only: e1)
  from key_materialization[of "''x''" "[(LAYER, Some 3)]" None
      "[''blocks.[layer].w'', ''norm.w'']" EXPERT "[]"]
  have r2: "templates_to_keys (Multi [''blocks.[layer].w'', ''norm.w'']) [(LAYER, Some 3)]
              None None = Inr None"
    by (simp only: e2)
  from c key_materialization[of "''blocks.[layer].experts.[expert].w''"
      "[(LAYER, Some 3), (EXPERT, None)]" None "[]" EXPERT "[0, 1]"]
  have r3: "templates_to_keys (Single ''blocks.[layer].experts.[expert].w'')
              [(LAYER, Some 3), (EXPERT, None)] (Some EXPERT) (Some [0, 1])
            = Inr (Some [''blocks.3.experts.0.w'', ''blocks.3.experts.1.w''])"
    by (simp only: e3)
  from r1 r2 c r3 show ?thesis by blast
qed

text \<open>
  The string mentions \<^verbatim>\<open>[expert]\<close>, the assignment has no entry for it and no entry
  mismatches: the key is materialized with \<^verbatim>\<open>[expert]\<close> still in it.
\<close>

theorem key_materialization_counterexample:
  "str_contains (ph_str EXPERT) ''blocks.[layer].experts.[expert].w''
   \<and> \<not> (\<exists>item \<in> set [(LAYER, Some 0)]. mismatch ''blocks.[layer].experts.[expert].w'' item)
   \<and> templates_to_keys (Single ''blocks.[layer].experts.[expert].w'') [(LAYER, Some 0)] None None
       = Inr (Some [''blocks.0.experts.[expert].w''])
   \<and> str_contains (ph_str EXPERT) ''blocks.0.experts.[expert].w''"
  by code_simp

section \<open>Per-placeholder expansion\<close>

lemma expansion_source_keys:
  assumes skpp: "source_key_per_placeholder t = Some LAYER"
    and bound: "map_of pb LAYER = Some 4"
    and sentinel: "map_of pv LAYER = Some None"
    and res: "to_mapping t pv pb = Inr (Some m)"
  shows "\<exists>s. source_template_keys t = Single s \<and> str_contains (ph_str LAYER) s
    \<and> source_keys m = map (\<lambda>i. substitute_values pv (str_replace s (ph_str LAYER) (str_int i)))
                         [0, 1, 2, 3]"
proof -
  from to_mapping_Some[OF res] skpp obtain sv
    where sv: "per_placeholder_values (Some LAYER) pv pb = Inr sv"
      and tk: "templates_to_keys (source_template_keys t) pv (Some LAYER) sv
                 = Inr (Some (source_keys m))"
    by auto
  from sv bound sentinel have "sv = Some [0, 1, 2, 3]"
    by (simp add: per_placeholder_values_def getitem_def py_range_4)
  with tk have tk': "templates_to_keys (source_template_keys t) pv (Some LAYER) (Some [0, 1, 2, 3])
                 = Inr (Some (source_keys m))"
    by simp
  show ?thesis
  proof (cases "source_template_keys t")
    case (Multi ss)
    with tk' show ?thesis by (simp add: templates_to_keys_def)
  next
    case (Single s)
    with tk' have c: "str_contains (ph_str LAYER) s"
      by (cases "str_contains (ph_str LAYER) s") (simp_all add: templates_to_keys_def)
    with tk' Single
    have "fill_keys (map (\<lambda>v. str_replace s (ph_str LAYER) (str_int v)) [0, 1, 2, 3]) pv
            = Some (source_keys m)"
      by (simp add: templates_to_keys_def)
    then have "Some (map (substitute_values pv)
                       (map (\<lambda>v. str_replace s (ph_str LAYER) (str_int v)) [0, 1, 2, 3]))
        = Some (source_keys m)"
      by (simp only: fill_keys_mismatch option.distinct split: if_splits)
    then have "map (substitute_values pv)
                 (map (\<lambda>v. str_replace s (ph_str LAYER) (str_int v)) [0, 1, 2, 3])
        = source_keys m"
      by (simp only: option.inject)
    then have "source_keys m
        = map (\<lambda>i. substitute_values pv (str_replace s (ph_str LAYER) (str_int i))) [0, 1, 2, 3]"
      by (simp only: map_map comp_def)
    with Single c show ?thesis by blast
  qed
qed

lemma expansion_resolves:
  assumes "source_key_per_placeholder t = Some LAYER"
    and "source_template_keys t = Single s"
    and "str_contains (ph_str LAYER) s"
    and "dest_key_per_placeholder t = None"
    and "dest_template_keys t = Single d"
    and "\<not> str_contains (ph_str LAYER) d"
    and "template_unflatten_dim t = None"
    and "map_of pb LAYER = Some 4"
  shows "to_mapping t [(LAYER, None)] pb =
    Inr (Some \<lparr> source_keys = map (\<lambda>i. str_replace s (ph_str LAYER) (str_int i)) [0, 1, 2, 3],
                 dest_keys = [d],
                 source_concat_dim = template_source_concat_dim t,
                 unflatten_dim = None,
                 dims_permutation = template_dims_permutation t,
                 flatten_dims = template_flatten_dims t,
                 dest_chunk_dim = template_dest_chunk_dim t \<rparr>)"
proof -
  from assms(8) have "(LAYER, 4) \<in> set pb" by (rule map_of_SomeD)
  then have "LAYER \<in> fst ` set pb" by force
  with assms(1,4,7)
  have req: "\<not> (\<exists>p \<in> set (required_placeholders t). p \<notin> set (map fst pb))"
    by (simp add: required_placeholders_def)
  have sv: "per_placeholder_values (Some LAYER) [(LAYER, None)] pb = Inr (Some [0, 1, 2, 3])"
    using assms(8) by (simp add: per_placeholder_values_def getitem_def py_range_4)
  have sk: "templates_to_keys (Single s) [(LAYER, None)] (Some LAYER) (Some [0, 1, 2, 3])
      = Inr (Some (map (\<lambda>i. str_replace s (ph_str LAYER) (str_int i)) [0, 1, 2, 3]))"
    using assms(3) placeholder_replaced[of LAYER s]
    by (simp add: templates_to_keys_def)
  have dk: "templates_to_keys (Single d) [(LAYER, None)] None None = Inr (Some [d])"
    using assms(6) by (simp add: templates_to_keys_def)
  show ?thesis
    unfolding to_mapping_def using req
    by (simp add: assms(1,2,4,5,7) sv sk dk)
qed

text \<open>
  Claim C5 (amended). For a template with \<^verbatim>\<open>source_key_per_placeholder = LAYER\<close>,
  bounds that map \<^verbatim>\<open>LAYER\<close> to 4 and an assignment with the sentinel for
  \<^verbatim>\<open>LAYER\<close>: whenever \<^verbatim>\<open>to_mapping\<close> returns a mapping, the source template is a
  single string that contains \<^verbatim>\<open>[layer]\<close> and the mapping has exactly 4 source keys,
  the string with the indices 0 to 3 substituted in ascending order (and then the other
  assigned placeholders). In \<^verbatim>\<open>convert\<close>, when the state dictionary holds a tensor
  under the key of index 0 and values under the keys of the indices 1 to 3, the list handed
  to \<^verbatim>\<open>torch.cat\<close> is the values of the indices 0, 1, 2, 3 in this order, with
  dimension \<^verbatim>\<open>source_concat_dim\<close>, and its result goes through the rest of the loop
  body. With the assignment \<open>{LAYER: None}\<close>, no \<^verbatim>\<open>dest_key_per_placeholder\<close>, a
  single destination key without \<^verbatim>\<open>[layer]\<close> and no \<^verbatim>\<open>unflatten_dim\<close>,
  \<^verbatim>\<open>to_mapping\<close> does return that mapping.
\<close>

theorem per_placeholder_expansion:
  "(source_key_per_placeholder t = Some LAYER
      \<and> map_of placeholder_bounds LAYER = Some 4
      \<and> map_of placeholder_values LAYER = Some None
      \<and> to_mapping t placeholder_values placeholder_bounds = Inr (Some m)
    \<longrightarrow> (\<exists>s. source_template_keys t = Single s \<and> str_contains (ph_str LAYER) s
            \<and> source_keys m =
                map (\<lambda>i. substitute_values placeholder_values
                            (str_replace s (ph_str LAYER) (str_int i))) [0, 1, 2, 3]
            \<and> (map_of state_dict
                   (substitute_values placeholder_values (str_replace s (ph_str LAYER) (str_int 0)))
                  = Some (TensorValue t0)
                \<and> map_of state_dict
                   (substitute_values placeholder_values (str_replace s (ph_str LAYER) (str_int 1)))
                  = Some v1
                \<and> map_of state_dict
                   (substitute_values placeholder_values (str_replace s (ph_str LAYER) (str_int 2)))
                  = Some v2
                \<and> map_of state_dict
                   (substitute_values placeholder_values (str_replace s (ph_str LAYER) (str_int 3)))
                  = Some v3
              \<longrightarrow> mapping_chunks ops state_dict m
                    = ebind (cat ops [TensorValue t0, v1, v2, v3] (source_concat_dim m))
                        (reshape_and_chunk ops m)))
        \<and> length (source_keys m) = 4)
   \<and> (source_key_per_placeholder t = Some LAYER
      \<and> source_template_keys t = Single s
      \<and> str_contains (ph_str LAYER) s
      \<and> dest_key_per_placeholder t = None
      \<and> dest_template_keys t = Single d
      \<and> \<not> str_contains (ph_str LAYER) d
      \<and> template_unflatten_dim t = None
      \<and> map_of placeholder_bounds LAYER = Some 4
    \<longrightarrow> to_mapping t [(LAYER, None)] placeholder_bounds =
          Inr (Some \<lparr> source_keys =
                         map (\<lambda>i. str_replace s (ph_str LAYER) (str_int i)) [0, 1, 2, 3],
                       dest_keys = [d],
                       source_concat_dim = template_source_concat_dim t,
                       unflatten_dim = None,
                       dims_permutation = template_dims_permutation t,
                       flatten_dims = template_flatten_dims t,
                       dest_chunk_dim = template_dest_chunk_dim t \<rparr>))"
proof (intro conjI impI)
  assume h: "source_key_per_placeholder t = Some LAYER
      \<and> map_of placeholder_bounds LAYER = Some 4
      \<and> map_of placeholder_values LAYER = Some None
      \<and> to_mapping t placeholder_values placeholder_bounds = Inr (Some m)"
  let ?key = "\<lambda>s i. substitute_values placeholder_values
                       (str_replace s (ph_str LAYER) (str_int i))"
  from h obtain s where s: "source_template_keys t = Single s" "str_contains (ph_str LAYER) s"
      "source_keys m = map (?key s) [0, 1, 2, 3]"
    using expansion_source_keys[of t placeholder_bounds placeholder_values m] by blast
  from s(3) have keys: "source_keys m = [?key s 0, ?key s 1, ?key s 2, ?key s 3]" by simp
  have "map_of state_dict (?key s 0) = Some (TensorValue t0)
        \<and> map_of state_dict (?key s 1) = Some v1
        \<and> map_of state_dict (?key s 2) = Some v2
        \<and> map_of state_dict (?key s 3) = Some v3
      \<longrightarrow> mapping_chunks ops state_dict m
            = ebind (cat ops [TensorValue t0, v1, v2, v3] (source_concat_dim m))
                (reshape_and_chunk ops m)"
    using mapping_chunks_four_keys[OF keys, of state_dict t0 v1 v2 v3 ops] by blast
  with s show "\<exists>s. source_template_keys t = Single s \<and> str_contains (ph_str LAYER) s
            \<and> source_keys m = map (?key s) [0, 1, 2, 3]
            \<and> (map_of state_dict (?key s 0) = Some (TensorValue t0)
                \<and> map_of state_dict (?key s 1) = Some v1
                \<and> map_of state_dict (?key s 2) = Some v2
                \<and> map_of state_dict (?key s 3) = Some v3
              \<longrightarrow> mapping_chunks ops state_dict m
                    = ebind (cat ops [TensorValue t0, v1, v2, v3] (source_concat_dim m))
                        (reshape_and_chunk ops m))"
    by blast
  from s(3) show "length (source_keys m) = 4" by simp
next
  assume "source_key_per_placeholder t = Some LAYER
      \<and> source_template_keys t = Single s
      \<and> str_contains (ph_str LAYER) s
      \<and> dest_key_per_placeholder t = None
      \<and> dest_template_keys t = Single d
      \<and> \<not> str_contains (ph_str LAYER) d
      \<and> template_unflatten_dim t = None
      \<and> map_of placeholder_bounds LAYER = Some 4"
  then show "to_mapping t [(LAYER, None)] placeholder_bounds =
          Inr (Some \<lparr> source_keys =
                         map (\<lambda>i. str_replace s (ph_str LAYER) (str_int i)) [0, 1, 2, 3],
                       dest_keys = [d],
                       source_concat_dim = template_source_concat_dim t,
                       unflatten_dim = None,
                       dims_permutation = template_dims_permutation t,
                       flatten_dims = template_flatten_dims t,
                       dest_chunk_dim = template_dest_chunk_dim t \<rparr>)"
    using expansion_resolves[of t s d placeholder_bounds] by blast
qed

theorem per_placeholder_expansion_witness:
  "source_key_per_placeholder all_layers_template = Some LAYER
   \<and> map_of [(LAYER, 4 :: int)] LAYER = Some 4
   \<and> map_of [(LAYER, None :: int option)] LAYER = Some None
   \<and> to_mapping all_layers_template [(LAYER, None)] [(LAYER, 4)] = Inr (Some all_layers_mapping)
   \<and> length (source_keys all_layers_mapping) = 4
   \<and> map_of [(''blocks.3.w'', TensorValue (Tensor [2] [16, 17]) :: (int tensor, unit) state_value),
              (''blocks.1.w'', TensorValue (Tensor [2] [12, 13])),
              (''blocks.0.w'', TensorValue (Tensor [2] [10, 11])),
              (''blocks.2.w'', TensorValue (Tensor [2] [14, 15]))] ''blocks.0.w''
       = Some (TensorValue (Tensor [2] [10, 11]))
   \<and> mapping_chunks (torch :: (int tensor, unit) tensor_ops)
        [(''blocks.3.w'', TensorValue (Tensor [2] [16, 17])),
         (''blocks.1.w'', TensorValue (Tensor [2] [12, 13])),
         (''blocks.0.w'', TensorValue (Tensor [2] [10, 11])),
         (''blocks.2.w'', TensorValue (Tensor [2] [14, 15]))] all_layers_mapping
       = Inr [(''all.w'', Tensor [8] [10, 11, 12, 13, 14, 15, 16, 17])]
   \<and> source_template_keys all_layers_template = Single ''blocks.[layer].w''
   \<and> str_contains (ph_str LAYER) ''blocks.[layer].w''
   \<and> dest_key_per_placeholder all_layers_template = None
   \<and> dest_template_keys all_layers_template = Single ''all.w''
   \<and> \<not> str_contains (ph_str LAYER) ''all.w''
   \<and> template_unflatten_dim all_layers_template = None
   \<and> to_mapping all_layers_template [(LAYER, None)] [(LAYER, 4)] =
        Inr (Some \<lparr> source_keys =
                       map (\<lambda>i. str_replace ''blocks.[layer].w'' (ph_str LAYER) (str_int i))
                         [0, 1, 2, 3],
                     dest_keys = [''all.w''],
                     source_concat_dim = template_source_concat_dim all_layers_template,
                     unflatten_dim = None,
                     dims_permutation = template_dims_permutation all_layers_template,
                     flatten_dims = template_flatten_dims all_layers_template,
                     dest_chunk_dim = template_dest_chunk_dim all_layers_template \<rparr>)"
proof -
  let ?ops = "torch :: (int tensor, unit) tensor_ops"
  let ?T0 = "Tensor [2] [10, 11] :: int tensor"
  let ?T1 = "Tensor [2] [12, 13] :: int tensor"
  let ?T2 = "Tensor [2] [14, 15] :: int tensor"
  let ?T3 = "Tensor [2] [16, 17] :: int tensor"
  let ?sd = "[(''blocks.3.w'', TensorValue ?T3 :: (int tensor, unit) state_value),
              (''blocks.1.w'', TensorValue ?T1),
              (''blocks.0.w'', TensorValue ?T0),
              (''blocks.2.w'', TensorValue ?T2)]"
  let ?key = "\<lambda>i. substitute_values [(LAYER, None)]
                     (str_replace ''blocks.[layer].w'' (ph_str LAYER) (str_int i))"
  have a1: "source_key_per_placeholder all_layers_template = Some LAYER"
    by (simp add: all_layers_template_def)
  have a2: "map_of [(LAYER, 4 :: int)] LAYER = Some 4" by simp
  have a3: "map_of [(LAYER, None :: int option)] LAYER = Some None" by simp
  have a4: "to_mapping all_layers_template [(LAYER, None)] [(LAYER, 4)]
              = Inr (Some all_layers_mapping)"
    by code_simp
  have k0: "?key 0 = ''blocks.0.w''" by code_simp
  have k1: "?key 1 = ''blocks.1.w''" by code_simp
  have k2: "?key 2 = ''blocks.2.w''" by code_simp
  have k3: "?key 3 = ''blocks.3.w''" by code_simp
  have v0: "map_of ?sd (?key 0) = Some (TensorValue ?T0)" by (simp only: k0) simp
  have v1: "map_of ?sd (?key 1) = Some (TensorValue ?T1)" by (simp only: k1) simp
  have v2: "map_of ?sd (?key 2) = Some (TensorValue ?T2)" by (simp only: k2) simp
  have v3: "map_of ?sd (?key 3) = Some (TensorValue ?T3)" by (simp only: k3) simp
  have v0': "map_of ?sd ''blocks.0.w'' = Some (TensorValue ?T0)" by simp
  have b1: "source_template_keys all_layers_template = Single ''blocks.[layer].w''"
    by (simp add: all_layers_template_def)
  have b2: "str_contains (ph_str LAYER) ''blocks.[layer].w''" by code_simp
  have b3: "dest_key_per_placeholder all_layers_template = None"
    by (simp add: all_layers_template_def)
  have b4: "dest_template_keys all_layers_template = Single ''all.w''"
    by (simp add: all_layers_template_def)
  have b5: "\<not> str_contains (ph_str LAYER) ''all.w''" by code_simp
  have b6: "template_unflatten_dim all_layers_template = None"
    by (simp add: all_layers_template_def)
  note inst = per_placeholder_expansion[where t = all_layers_template
      and placeholder_bounds = "[(LAYER, 4)]" and placeholder_values = "[(LAYER, None)]"
      and m = all_layers_mapping and state_dict = ?sd and ops = ?ops
      and ?t0.0 = ?T0 and ?v1.0 = "TensorValue ?T1" and ?v2.0 = "TensorValue ?T2"
      and ?v3.0 = "TensorValue ?T3"
      and s = "''blocks.[layer].w''" and d = "''all.w''"]
  from inst a1 a2 a3 a4 have r1: "length (source_keys all_layers_mapping) = 4" by blast
  from inst a1 a2 a3 a4 obtain s'
    where s': "source_template_keys all_layers_template = Single s'"
      and imp: "map_of ?sd (substitute_values [(LAYER, None)]
                              (str_replace s' (ph_str LAYER) (str_int 0)))
                  = Some (TensorValue ?T0)
                \<and> map_of ?sd (substitute_values [(LAYER, None)]
                              (str_replace s' (ph_str LAYER) (str_int 1)))
                  = Some (TensorValue ?T1)
                \<and> map_of ?sd (substitute_values [(LAYER, None)]
                              (str_replace s' (ph_str LAYER) (str_int 2)))
                  = Some (TensorValue ?T2)
                \<and> map_of ?sd (substitute_values [(LAYER, None)]
                              (str_replace s' (ph_str LAYER) (str_int 3)))
                  = Some (TensorValue ?T3)
              \<longrightarrow> mapping_chunks ?ops ?sd all_layers_mapping
                    = ebind (cat ?ops [TensorValue ?T0, TensorValue ?T1, TensorValue ?T2,
                                       TensorValue ?T3]
                               (source_concat_dim all_layers_mapping))
                        (reshape_and_chunk ?ops all_layers_mapping)"
    by blast
  from s' b1 have "s' = ''blocks.[layer].w''" by simp
  with imp v0 v1 v2 v3
  have "mapping_chunks ?ops ?sd all_layers_mapping
      = ebind (cat ?ops [TensorValue ?T0, TensorValue ?T1, TensorValue ?T2, TensorValue ?T3]
                 (source_concat_dim all_layers_mapping))
          (reshape_and_chunk ?ops all_layers_mapping)"
    by blast
  also have "\<dots> = Inr [(''all.w'', Tensor [8] [10, 11, 12, 13, 14, 15, 16, 17])]"
    by code_simp
  finally have r2: "mapping_chunks ?ops ?sd all_layers_mapping
      = Inr [(''all.w'', Tensor [8] [10, 11, 12, 13, 14, 15, 16, 17])]" .
  from inst a1 a2 b1 b2 b3 b4 b5 b6
  have r3: "to_mapping all_layers_template [(LAYER, None)] [(LAYER, 4)] =
        Inr (Some \<lparr> source_keys =
                       map (\<lambda>i. str_replace ''blocks.[layer].w'' (ph_str LAYER) (str_int i))
                         [0, 1, 2, 3],
                     dest_keys = [''all.w''],
                     source_concat_dim = template_source_concat_dim all_layers_template,
                     unflatten_dim = None,
                     dims_permutation = template_dims_permutation all_layers_template,
                     flatten_dims = template_flatten_dims all_layers_template,
                     dest_chunk_dim = template_dest_chunk_dim all_layers_template \<rparr>)"
    by blast
  from a1 a2 a3 a4 r1 v0' r2 b1 b2 b3 b4 b5 b6 r3 show ?thesis by blast
qed

text \<open>
  The destination key mentions \<^verbatim>\<open>[layer]\<close> and has no expansion of its own: with the
  sentinel for \<^verbatim>\<open>LAYER\<close> the template resolves to not-applicable, not to a mapping.
\<close>

theorem per_placeholder_expansion_counterexample:
  "source_key_per_placeholder layers_to_layer_template = Some LAYER
   \<and> map_of [(LAYER, 4 :: int)] LAYER = Some 4
   \<and> to_mapping layers_to_layer_template [(LAYER, None)] [(LAYER, 4)] = Inr None"
  by code_simp

section \<open>Coverage\<close>

lemma convert_Inr:
  assumes "convert ops ts sd pb = Inr d"
  shows "\<exists>ms. get_mappings ts sd pb = Inr ms
    \<and> apply_mappings ops sd ms ([], set (map fst sd)) = Inr (d, {})"
proof (cases "get_mappings ts sd pb")
  case (Inl e)
  with assms show ?thesis by (simp add: convert_def)
next
  case (Inr ms)
  show ?thesis
  proof (cases "apply_mappings ops sd ms ([], set (map fst sd))")
    case (Inl e)
    with assms Inr show ?thesis by (simp add: convert_def)
  next
    case r: (Inr st)
    obtain d' u where st: "st = (d', u)" by (cases st)
    with assms Inr r have "u = {} \<and> d' = d"
      by (cases "u = {}") (simp_all add: convert_def)
    with Inr r st show ?thesis by simp
  qed
qed

lemma convert_unused:
  assumes "get_mappings ts sd pb = Inr ms"
    and "apply_mappings ops sd ms ([], set (map fst sd)) = Inr (d, unused)"
    and "unused \<noteq> {}"
  shows "convert ops ts sd pb = Inl (UnconvertedKeys (sorted_list_of_set unused))"
  using assms by (simp add: convert_def)

text \<open>
  Claim C1. \<^verbatim>\<open>convert\<close> returns a destination dictionary only when every key of the
  source dictionary is a source key of some resolved mapping. If the loop over the
  mappings ends with a non-empty set of unused keys, that set is the keys no mapping
  claimed, and \<^verbatim>\<open>convert\<close> raises the error that lists exactly those keys, sorted;
  no dictionary is returned.
\<close>

theorem convert_coverage:
  "(convert ops mapping_templates state_dict placeholder_bounds = Inr converted
    \<longrightarrow> (\<exists>state_mappings.
          get_mappings mapping_templates state_dict placeholder_bounds = Inr state_mappings
          \<and> (\<forall>k \<in> set (map fst state_dict).
                \<exists>mapping \<in> set state_mappings. k \<in> set (source_keys mapping))))
   \<and> (get_mappings mapping_templates state_dict placeholder_bounds = Inr state_mappings
      \<and> apply_mappings ops state_dict state_mappings ([], set (map fst state_dict))
          = Inr (partial, unused)
      \<and> unused \<noteq> {}
    \<longrightarrow> unused = set (map fst state_dict)
                   - (\<Union>mapping \<in> set state_mappings. set (source_keys mapping))
        \<and> (\<exists>ks. convert ops mapping_templates state_dict placeholder_bounds
                    = Inl (UnconvertedKeys ks)
                \<and> sorted ks \<and> distinct ks \<and> set ks = unused))"
proof (intro conjI impI)
  assume "convert ops mapping_templates state_dict placeholder_bounds = Inr converted"
  from convert_Inr[OF this] obtain ms
    where ms: "get_mappings mapping_templates state_dict placeholder_bounds = Inr ms"
      and loop: "apply_mappings ops state_dict ms ([], set (map fst state_dict))
                   = Inr (converted, {})"
    by blast
  from apply_mappings_unused[OF loop]
  have "set (map fst state_dict) \<subseteq> (\<Union>m \<in> set ms. set (source_keys m))" by blast
  then have "\<forall>k \<in> set (map fst state_dict). \<exists>m \<in> set ms. k \<in> set (source_keys m)"
    by blast
  with ms show "\<exists>state_mappings.
          get_mappings mapping_templates state_dict placeholder_bounds = Inr state_mappings
          \<and> (\<forall>k \<in> set (map fst state_dict).
                \<exists>mapping \<in> set state_mappings. k \<in> set (source_keys mapping))"
    by blast
next
  assume h: "get_mappings mapping_templates state_dict placeholder_bounds = Inr state_mappings
      \<and> apply_mappings ops state_dict state_mappings ([], set (map fst state_dict))
          = Inr (partial, unused)
      \<and> unused \<noteq> {}"
  then have loop: "apply_mappings ops state_dict state_mappings ([], set (map fst state_dict))
          = Inr (partial, unused)"
    by blast
  from apply_mappings_unused[OF loop]
  show u: "unused = set (map fst state_dict)
                   - (\<Union>mapping \<in> set state_mappings. set (source_keys mapping))" .
  then have "finite unused" by simp
  then have "sorted (sorted_list_of_set unused) \<and> distinct (sorted_list_of_set unused)
      \<and> set (sorted_list_of_set unused) = unused"
    by simp
  moreover from h
  have "convert ops mapping_templates state_dict placeholder_bounds
          = Inl (UnconvertedKeys (sorted_list_of_set unused))"
    using convert_unused[of mapping_templates state_dict placeholder_bounds state_mappings
        ops partial unused]
    by blast
  ultimately show "\<exists>ks. convert ops mapping_templates state_dict placeholder_bounds
                    = Inl (UnconvertedKeys ks)
                \<and> sorted ks \<and> distinct ks \<and> set ks = unused"
    by blast
qed

theorem convert_coverage_witness:
  "convert (torch :: (int tensor, unit) tensor_ops) [copy_a_x_template]
       [(''a'', TensorValue (Tensor [2] [7, 8]))] []
     = Inr [(''x'', Tensor [2] [7, 8])]
   \<and> get_mappings [copy_a_x_template] [(''a'', TensorValue (Tensor [2] [7, 8]) :: (int tensor, unit) state_value)] []
       = Inr [copy_a_x_mapping]
   \<and> ''a'' \<in> set (source_keys copy_a_x_mapping)
   \<and> get_mappings [copy_a_x_template]
       [(''b'', TensorValue (Tensor [2] [5, 6]) :: (int tensor, unit) state_value),
        (''a'', TensorValue (Tensor [2] [7, 8])), (''0'', OtherValue ())] []
       = Inr [copy_a_x_mapping]
   \<and> apply_mappings (torch :: (int tensor, unit) tensor_ops)
       [(''b'', TensorValue (Tensor [2] [5, 6])), (''a'', TensorValue (Tensor [2] [7, 8])),
        (''0'', OtherValue ())]
       [copy_a_x_mapping] ([], {''b'', ''a'', ''0''})
       = Inr ([(''x'', Tensor [2] [7, 8])], {''b'', ''0''})
   \<and> convert (torch :: (int tensor, unit) tensor_ops) [copy_a_x_template]
       [(''b'', TensorValue (Tensor [2] [5, 6])), (''a'', TensorValue (Tensor [2] [7, 8])),
        (''0'', OtherValue ())] []
       = Inl (UnconvertedKeys [''0'', ''b''])"
proof -
  let ?ops = "torch :: (int tensor, unit) tensor_ops"
  let ?sd1 = "[(''a'', TensorValue (Tensor [2] [7, 8]) :: (int tensor, unit) state_value)]"
  let ?sd2 = "[(''b'', TensorValue (Tensor [2] [5, 6]) :: (int tensor, unit) state_value),
        (''a'', TensorValue (Tensor [2] [7, 8])), (''0'', OtherValue ())]"
  have a: "convert ?ops [copy_a_x_template] ?sd1 [] = Inr [(''x'', Tensor [2] [7, 8])]"
    by code_simp
  have g1: "get_mappings [copy_a_x_template] ?sd1 [] = Inr [copy_a_x_mapping]"
    by code_simp
  from convert_coverage[of ?ops "[copy_a_x_template]" ?sd1 "[]" "[(''x'', Tensor [2] [7, 8])]"] a g1
  have "\<forall>k \<in> set (map fst ?sd1). \<exists>mapping \<in> set [copy_a_x_mapping]. k \<in> set (source_keys mapping)"
    by (metis sum.inject(2))
  then have r1: "''a'' \<in> set (source_keys copy_a_x_mapping)" by simp
  have g2: "get_mappings [copy_a_x_template] ?sd2 [] = Inr [copy_a_x_mapping]"
    by code_simp
  have keys2: "set (map fst ?sd2) = {''b'', ''a'', ''0''}" by simp
  have minus: "({''b'', ''a'', ''0''} :: string set) - {''a''} = {''b'', ''0''}" by auto
  have sk: "source_keys copy_a_x_mapping = [''a'']" by (simp add: copy_a_x_mapping_def)
  have chunks: "mapping_chunks ?ops ?sd2 copy_a_x_mapping = Inr [(''x'', Tensor [2] [7, 8])]"
    by code_simp
  have l2: "apply_mappings ?ops ?sd2 [copy_a_x_mapping] ([], {''b'', ''a'', ''0''})
      = Inr ([(''x'', Tensor [2] [7, 8])], {''b'', ''0''})"
    by (simp add: chunks assign_all_def sk minus)
  have ne: "({''b'', ''0''} :: string set) \<noteq> {}" by simp
  from convert_coverage[of ?ops "[copy_a_x_template]" ?sd2 "[]" _ "[copy_a_x_mapping]"
      "[(''x'', Tensor [2] [7, 8])]" "{''b'', ''0''}"] g2 l2 ne keys2
  obtain ks where ks: "convert ?ops [copy_a_x_template] ?sd2 [] = Inl (UnconvertedKeys ks)"
    and s: "sorted ks" "distinct ks" "set ks = {''b'', ''0''}"
    by (metis (no_types, lifting))
  have "sorted_list_of_set (set ks) = ks"
    using s(1,2) by (simp add: sorted_list_of_set.idem_if_sorted_distinct)
  moreover have "sorted_list_of_set ({''b'', ''0''} :: string set) = [''0'', ''b'']"
    by code_simp
  ultimately have "ks = [''0'', ''b'']" using s(3) by simp
  with a g1 r1 g2 l2 ks show ?thesis by simp
qed

section \<open>Double claims\<close>

text \<open>
  Claim C7 (amended). A source key claimed by two mappings raises no error of its own: the
  keys of a mapping leave \<^verbatim>\<open>unused_original_keys\<close> by set difference, which ignores
  keys that are no longer there. Whenever the type test and the tensor operations succeed
  for every mapping, whatever keys the mappings share, the loop of \<^verbatim>\<open>convert\<close>
  completes: the destination dictionary has received the pairs of every mapping, in the
  order of the mappings, and the unused keys are those no mapping has; if no key is left
  unused, \<^verbatim>\<open>convert\<close> returns that dictionary. A key of the dictionary holds the chunk
  of the last pair written under it, and keeps its former value if no pair is written
  under it. An error of the loop is always the error of the type test or of the tensor
  operations of one mapping.
\<close>

theorem double_claim_completes:
  "(list_all2 (\<lambda>mapping pairs. mapping_chunks ops state_dict mapping = Inr pairs)
      state_mappings chunks
     \<longrightarrow> apply_mappings ops state_dict state_mappings (converted_state_dict, unused_original_keys)
           = Inr (assign_all converted_state_dict (concat chunks),
                  unused_original_keys
                    - (\<Union>mapping \<in> set state_mappings. set (source_keys mapping)))
         \<and> (get_mappings mapping_templates state_dict placeholder_bounds = Inr state_mappings
              \<and> set (map fst state_dict)
                  \<subseteq> (\<Union>mapping \<in> set state_mappings. set (source_keys mapping))
            \<longrightarrow> convert ops mapping_templates state_dict placeholder_bounds
                  = Inr (assign_all [] (concat chunks))))
   \<and> map_of (assign_all converted_state_dict pairs) key
       = (case map_of (rev pairs) key of
            None \<Rightarrow> map_of converted_state_dict key
          | Some state_chunk \<Rightarrow> Some state_chunk)
   \<and> (apply_mappings ops state_dict state_mappings (converted_state_dict, unused_original_keys)
         = Inl e
     \<longrightarrow> (\<exists>mapping \<in> set state_mappings. mapping_chunks ops state_dict mapping = Inl e))"
proof (intro conjI impI)
  assume h: "list_all2 (\<lambda>mapping pairs. mapping_chunks ops state_dict mapping = Inr pairs)
      state_mappings chunks"
  then show "apply_mappings ops state_dict state_mappings
               (converted_state_dict, unused_original_keys)
           = Inr (assign_all converted_state_dict (concat chunks),
                  unused_original_keys
                    - (\<Union>mapping \<in> set state_mappings. set (source_keys mapping)))"
    by (rule apply_mappings_writes)
  assume g: "get_mappings mapping_templates state_dict placeholder_bounds = Inr state_mappings
      \<and> set (map fst state_dict)
          \<subseteq> (\<Union>mapping \<in> set state_mappings. set (source_keys mapping))"
  then have "set (map fst state_dict)
      - (\<Union>mapping \<in> set state_mappings. set (source_keys mapping)) = {}"
    by blast
  with g apply_mappings_writes[OF h, of "[]" "set (map fst state_dict)"]
  show "convert ops mapping_templates state_dict placeholder_bounds
      = Inr (assign_all [] (concat chunks))"
    by (simp add: convert_def)
next
  show "map_of (assign_all converted_state_dict pairs) key
       = (case map_of (rev pairs) key of
            None \<Rightarrow> map_of converted_state_dict key
          | Some state_chunk \<Rightarrow> Some state_chunk)"
    by (rule map_of_assign_all)
next
  assume "apply_mappings ops state_dict state_mappings (converted_state_dict, unused_original_keys)
         = Inl e"
  then show "\<exists>mapping \<in> set state_mappings. mapping_chunks ops state_dict mapping = Inl e"
    by (rule apply_mappings_Inl)
qed

theorem double_claim_completes_witness:
  "mapping_chunks (torch :: (int tensor, unit) tensor_ops)
       [(''a'', TensorValue (Tensor [2] [7, 8]))] copy_a_x_mapping
     = Inr [(''x'', Tensor [2] [7, 8])]
   \<and> mapping_chunks (torch :: (int tensor, unit) tensor_ops)
       [(''a'', TensorValue (Tensor [2] [7, 8]))] copy_a_y_mapping
     = Inr [(''y'', Tensor [2] [7, 8])]
   \<and> ''a'' \<in> set (source_keys copy_a_x_mapping) \<inter> set (source_keys copy_a_y_mapping)
   \<and> get_mappings [copy_a_x_template, copy_a_y_template]
       [(''a'', TensorValue (Tensor [2] [7, 8]) :: (int tensor, unit) state_value)] []
     = Inr [copy_a_x_mapping, copy_a_y_mapping]
   \<and> apply_mappings (torch :: (int tensor, unit) tensor_ops)
       [(''a'', TensorValue (Tensor [2] [7, 8]))]
       [copy_a_x_mapping, copy_a_y_mapping] ([], {''a''})
     = Inr ([(''x'', Tensor [2] [7, 8]), (''y'', Tensor [2] [7, 8])], {})
   \<and> convert (torch :: (int tensor, unit) tensor_ops) [copy_a_x_template, copy_a_y_template]
       [(''a'', TensorValue (Tensor [2] [7, 8]))] []
     = Inr [(''x'', Tensor [2] [7, 8]), (''y'', Tensor [2] [7, 8])]"
proof -
  let ?ops = "torch :: (int tensor, unit) tensor_ops"
  let ?sd = "[(''a'', TensorValue (Tensor [2] [7, 8]) :: (int tensor, unit) state_value)]"
  let ?ms = "[copy_a_x_mapping, copy_a_y_mapping]"
  let ?chunks = "[[(''x'', Tensor [2] [7, 8] :: int tensor)], [(''y'', Tensor [2] [7, 8])]]"
  have x: "mapping_chunks ?ops ?sd copy_a_x_mapping = Inr [(''x'', Tensor [2] [7, 8])]"
    by code_simp
  have y: "mapping_chunks ?ops ?sd copy_a_y_mapping = Inr [(''y'', Tensor [2] [7, 8])]"
    by code_simp
  from x y have h: "list_all2 (\<lambda>mapping pairs. mapping_chunks ?ops ?sd mapping = Inr pairs)
      ?ms ?chunks"
    by simp
  have k: "''a'' \<in> set (source_keys copy_a_x_mapping) \<inter> set (source_keys copy_a_y_mapping)"
    by (simp add: copy_a_x_mapping_def copy_a_y_mapping_def)
  have g: "get_mappings [copy_a_x_template, copy_a_y_template] ?sd [] = Inr ?ms"
    by code_simp
  have cover: "set (map fst ?sd) \<subseteq> (\<Union>mapping \<in> set ?ms. set (source_keys mapping))"
    by (simp add: copy_a_x_mapping_def)
  have u: "{''a''} - (\<Union>mapping \<in> set ?ms. set (source_keys mapping)) = ({} :: string set)"
    by (simp add: copy_a_x_mapping_def copy_a_y_mapping_def)
  have w: "assign_all [] (concat ?chunks)
      = [(''x'', Tensor [2] [7, 8] :: int tensor), (''y'', Tensor [2] [7, 8])]"
    by code_simp
  note inst = double_claim_completes[where ops = ?ops and state_dict = ?sd
      and state_mappings = ?ms and chunks = ?chunks and converted_state_dict = "[]"
      and unused_original_keys = "{''a''}"
      and mapping_templates = "[copy_a_x_template, copy_a_y_template]"
      and placeholder_bounds = "[]"]
  from inst h
  have "apply_mappings ?ops ?sd ?ms ([], {''a''})
      = Inr (assign_all [] (concat ?chunks),
             {''a''} - (\<Union>mapping \<in> set ?ms. set (source_keys mapping)))"
    by blast
  then have l: "apply_mappings ?ops ?sd ?ms ([], {''a''})
      = Inr ([(''x'', Tensor [2] [7, 8]), (''y'', Tensor [2] [7, 8])], {})"
    by (simp only: u w)
  from inst h g cover
  have "convert ?ops [copy_a_x_template, copy_a_y_template] ?sd []
      = Inr (assign_all [] (concat ?chunks))"
    by blast
  then have c: "convert ?ops [copy_a_x_template, copy_a_y_template] ?sd []
      = Inr [(''x'', Tensor [2] [7, 8]), (''y'', Tensor [2] [7, 8])]"
    by (simp only: w)
  from x y k g l c show ?thesis by blast
qed

theorem double_claim_completes_counterexample:
  "get_mappings [copy_a_x_template, copy_a_y_template]
       [(''a'', TensorValue (Tensor [2] [7, 8]) :: (int tensor, unit) state_value)] []
     = Inr [copy_a_x_mapping, copy_a_y_mapping]
   \<and> convert (torch :: (int tensor, unit) tensor_ops) [copy_a_x_template, copy_a_y_template]
       [(''a'', TensorValue (Tensor [2] [7, 8]))] []
     = Inr [(''x'', Tensor [2] [7, 8]), (''y'', Tensor [2] [7, 8])]"
  by code_simp

section \<open>Values that are not tensors\<close>

lemma convert_first_error:
  assumes "get_mappings ts sd pb = Inr (ms1 @ m # ms2)"
    and "\<forall>m' \<in> set ms1. \<exists>pairs. mapping_chunks ops sd m' = Inr pairs"
    and "mapping_chunks ops sd m = Inl e"
  shows "convert ops ts sd pb = Inl e"
  using assms(1) apply_mappings_first_error[OF assms(2,3)]
  by (simp add: convert_def)

text \<open>
  Claim C4. \<^verbatim>\<open>convert\<close> tests \<^verbatim>\<open>isinstance(..., torch.Tensor)\<close> on the value of the
  first source key of a mapping only. If that value is not a tensor, and the mappings
  before it in the order of \<^verbatim>\<open>get_mappings\<close> have been converted, \<^verbatim>\<open>convert\<close> raises
  the error "Attempting to map n non-tensor states to m keys", with the numbers of source
  and destination keys of the mapping. With the operations of PyTorch, \<^verbatim>\<open>convert\<close>
  returns a dictionary only if every source key of every resolved mapping holds a tensor:
  no other value reaches the destination dictionary.
\<close>

theorem non_tensor_rejection:
  "(get_mappings mapping_templates state_dict placeholder_bounds = Inr (before @ mapping # after)
      \<and> (\<forall>m \<in> set before. \<exists>pairs. mapping_chunks ops state_dict m = Inr pairs)
      \<and> source_keys mapping = key # keys
      \<and> map_of state_dict key = Some (OtherValue x)
    \<longrightarrow> convert ops mapping_templates state_dict placeholder_bounds
          = Inl (NonTensorStates (length (source_keys mapping)) (length (dest_keys mapping))))
   \<and> (convert torch mapping_templates state_dict placeholder_bounds = Inr converted
      \<and> get_mappings mapping_templates state_dict placeholder_bounds = Inr state_mappings
      \<and> m' \<in> set state_mappings \<and> key' \<in> set (source_keys m')
    \<longrightarrow> (\<exists>t. map_of state_dict key' = Some (TensorValue t)))"
proof (intro conjI impI)
  assume h: "get_mappings mapping_templates state_dict placeholder_bounds
        = Inr (before @ mapping # after)
      \<and> (\<forall>m \<in> set before. \<exists>pairs. mapping_chunks ops state_dict m = Inr pairs)
      \<and> source_keys mapping = key # keys
      \<and> map_of state_dict key = Some (OtherValue x)"
  then have "mapping_chunks ops state_dict mapping
      = Inl (NonTensorStates (length (source_keys mapping)) (length (dest_keys mapping)))"
    using mapping_chunks_non_tensor[of mapping key keys state_dict x ops] by blast
  with h show "convert ops mapping_templates state_dict placeholder_bounds
          = Inl (NonTensorStates (length (source_keys mapping)) (length (dest_keys mapping)))"
    using convert_first_error[of mapping_templates state_dict placeholder_bounds before mapping
        after ops]
    by blast
next
  assume h: "convert torch mapping_templates state_dict placeholder_bounds = Inr converted
      \<and> get_mappings mapping_templates state_dict placeholder_bounds = Inr state_mappings
      \<and> m' \<in> set state_mappings \<and> key' \<in> set (source_keys m')"
  then have c: "convert torch mapping_templates state_dict placeholder_bounds = Inr converted"
    by blast
  from convert_Inr[OF c] h
  have "apply_mappings torch state_dict state_mappings ([], set (map fst state_dict))
      = Inr (converted, {})"
    by auto
  then have "\<exists>st'. apply_mappings torch state_dict state_mappings
      ([], set (map fst state_dict)) = Inr st'"
    by blast
  then have "\<forall>m \<in> set state_mappings. \<exists>pairs. mapping_chunks torch state_dict m = Inr pairs"
    by (simp only: apply_mappings_Inr_iff)
  with h obtain pairs where "mapping_chunks torch state_dict m' = Inr pairs" by blast
  from mapping_chunks_torch_tensors[OF this] h
  show "\<exists>t. map_of state_dict key' = Some (TensorValue t)" by blast
qed

theorem non_tensor_rejection_witness:
  "get_mappings [copy_a_x_template, join_b_a_template]
       [(''a'', TensorValue (Tensor [2] [7, 8]) :: (int tensor, nat) state_value),
        (''b'', OtherValue 3)] []
     = Inr ([copy_a_x_mapping] @ join_b_a_mapping # [])
   \<and> mapping_chunks (torch :: (int tensor, nat) tensor_ops)
       [(''a'', TensorValue (Tensor [2] [7, 8])), (''b'', OtherValue 3)] copy_a_x_mapping
     = Inr [(''x'', Tensor [2] [7, 8])]
   \<and> convert (torch :: (int tensor, nat) tensor_ops) [copy_a_x_template, join_b_a_template]
       [(''a'', TensorValue (Tensor [2] [7, 8])), (''b'', OtherValue 3)] []
     = Inl (NonTensorStates 2 1)
   \<and> convert (torch :: (int tensor, nat) tensor_ops) [copy_a_x_template]
       [(''a'', TensorValue (Tensor [2] [7, 8]))] []
     = Inr [(''x'', Tensor [2] [7, 8])]
   \<and> (\<exists>t. map_of [(''a'', TensorValue (Tensor [2] [7, 8]) :: (int tensor, nat) state_value)] ''a''
           = Some (TensorValue t))"
proof -
  let ?ops = "torch :: (int tensor, nat) tensor_ops"
  let ?sd = "[(''a'', TensorValue (Tensor [2] [7, 8]) :: (int tensor, nat) state_value),
        (''b'', OtherValue 3)]"
  let ?sd1 = "[(''a'', TensorValue (Tensor [2] [7, 8]) :: (int tensor, nat) state_value)]"
  have g: "get_mappings [copy_a_x_template, join_b_a_template] ?sd []
      = Inr ([copy_a_x_mapping] @ join_b_a_mapping # [])"
    by code_simp
  have mc: "mapping_chunks ?ops ?sd copy_a_x_mapping = Inr [(''x'', Tensor [2] [7, 8])]"
    by code_simp
  then have b: "\<forall>m \<in> set [copy_a_x_mapping]. \<exists>pairs. mapping_chunks ?ops ?sd m = Inr pairs"
    by simp
  have sk: "source_keys join_b_a_mapping = ''b'' # [''a'']"
    by (simp add: join_b_a_mapping_def)
  have dk: "length (dest_keys join_b_a_mapping) = 1"
    by (simp add: join_b_a_mapping_def)
  have v: "map_of ?sd ''b'' = Some (OtherValue 3)" by simp
  from non_tensor_rejection[where mapping_templates = "[copy_a_x_template, join_b_a_template]"
      and state_dict = ?sd and placeholder_bounds = "[]" and before = "[copy_a_x_mapping]"
      and mapping = join_b_a_mapping and after = "[]" and ops = ?ops
      and key = "''b''" and keys = "[''a'']" and x = 3] g b sk v
  have "convert ?ops [copy_a_x_template, join_b_a_template] ?sd []
      = Inl (NonTensorStates (length (source_keys join_b_a_mapping))
               (length (dest_keys join_b_a_mapping)))"
    by blast
  then have e: "convert ?ops [copy_a_x_template, join_b_a_template] ?sd []
      = Inl (NonTensorStates 2 1)"
    by (simp add: sk dk)
  have c: "convert ?ops [copy_a_x_template] ?sd1 [] = Inr [(''x'', Tensor [2] [7, 8])]"
    by code_simp
  have g1: "get_mappings [copy_a_x_template] ?sd1 [] = Inr [copy_a_x_mapping]"
    by code_simp
  have "''a'' \<in> set (source_keys copy_a_x_mapping)" by (simp add: copy_a_x_mapping_def)
  with non_tensor_rejection[where mapping_templates = "[copy_a_x_template]"
      and state_dict = ?sd1 and placeholder_bounds = "[]"
      and converted = "[(''x'', Tensor [2] [7, 8])]" and state_mappings = "[copy_a_x_mapping]"
      and m' = copy_a_x_mapping and key' = "''a''"] c g1
  have t: "\<exists>t. map_of ?sd1 ''a'' = Some (TensorValue t)"
    by simp
  from g mc e c t show ?thesis by blast
qed

theorem non_tensor_rejection_counterexample:
  "get_mappings [join_a_b_template]
       [(''a'', TensorValue (Tensor [2] [7, 8]) :: (int tensor, nat) state_value),
        (''b'', OtherValue 3)] []
     = Inr [join_a_b_mapping]
   \<and> ''b'' \<in> set (source_keys join_a_b_mapping)
   \<and> convert (torch :: (int tensor, nat) tensor_ops) [join_a_b_template]
       [(''a'', TensorValue (Tensor [2] [7, 8])), (''b'', OtherValue 3)] []
     = Inl TypeError"
  by code_simp

section \<open>One weight per layer\<close>

lemma w_q_get_mappings:
  "get_mappings [w_q_template]
     [(''blocks.0.attn.w_q'', v0), (''blocks.1.attn.w_q'', v1)] [(LAYER, 2)]
   = Inr [w_q_mapping]"
proof -
  have "get_mappings [w_q_template]
     [(''blocks.0.attn.w_q'', ()), (''blocks.1.attn.w_q'', ())] [(LAYER, 2)]
   = Inr [w_q_mapping]"
    by code_simp
  then show ?thesis
    using get_mappings_keys[of "[(''blocks.0.attn.w_q'', v0), (''blocks.1.attn.w_q'', v1)]"
        "[(''blocks.0.attn.w_q'', ()), (''blocks.1.attn.w_q'', ())]" "[w_q_template]"
        "[(LAYER, 2)]"]
    by simp
qed

lemma w_q_chunks:
  fixes T0 T1 :: "'a tensor"
  assumes wf0: "well_formed T0" and wf1: "well_formed T1"
    and eq: "shape T0 = shape T1" and ne: "shape T0 \<noteq> []"
  shows "mapping_chunks (torch :: ('a tensor, 's) tensor_ops)
     [(''blocks.0.attn.w_q'', TensorValue T0), (''blocks.1.attn.w_q'', TensorValue T1)]
     w_q_mapping
   = Inr [(''model.layers.0.self_attn.q_proj.weight'', T0),
          (''model.layers.1.self_attn.q_proj.weight'', T1)]"
proof -
  let ?ops = "torch :: ('a tensor, 's) tensor_ops"
  let ?sd = "[(''blocks.0.attn.w_q'', TensorValue T0 :: ('a tensor, 's) state_value),
              (''blocks.1.attn.w_q'', TensorValue T1)]"
  from ne obtain n rest where shp: "shape T0 = n # rest" by (cases "shape T0") auto
  from wf0 shp have l0: "length (elems T0) = n * prod_list rest"
    by (simp add: well_formed_def)
  from wf1 shp eq have l1: "length (elems T1) = n * prod_list rest"
    by (simp add: well_formed_def)
  have c0: "Tensor (n # rest) (elems T0) = T0" using shp by (cases T0) simp
  have c1: "Tensor (n # rest) (elems T1) = T1" using shp eq by (cases T1) simp
  have g0: "getitem ?sd ''blocks.0.attn.w_q'' = Inr (TensorValue T0)"
    by (simp add: getitem_def)
  have g1: "getitem ?sd ''blocks.1.attn.w_q'' = Inr (TensorValue T1)"
    by (simp add: getitem_def)
  have ss: "source_states ?sd [''blocks.0.attn.w_q'', ''blocks.1.attn.w_q'']
      = Inr [TensorValue T0, TensorValue T1]"
    by (simp add: source_states_def g0 g1)
  have ct: "torch_cat [TensorValue T0 :: ('a tensor, 's) state_value, TensorValue T1] 0
      = Inr (Tensor ((n + n) # rest) (elems T0 @ elems T1))"
    using wf0 wf1 eq[symmetric] shp by (rule torch_cat_pair)
  have ch: "torch_chunk (Tensor ((n + n) # rest) (elems T0 @ elems T1)) 2 0 = Inr [T0, T1]"
    using torch_chunk_pair[OF l0 l1] by (simp only: c0 c1)
  have rc: "reshape_and_chunk ?ops w_q_mapping (Tensor ((n + n) # rest) (elems T0 @ elems T1))
      = Inr [(''model.layers.0.self_attn.q_proj.weight'', T0),
             (''model.layers.1.self_attn.q_proj.weight'', T1)]"
    by (simp add: reshape_and_chunk_def w_q_mapping_def torch_def ch)
  have sk: "source_keys w_q_mapping = [''blocks.0.attn.w_q'', ''blocks.1.attn.w_q'']"
    by (simp add: w_q_mapping_def)
  have cd: "source_concat_dim w_q_mapping = 0" by (simp add: w_q_mapping_def)
  have "mapping_chunks ?ops ?sd w_q_mapping
      = ebind (torch_cat [TensorValue T0 :: ('a tensor, 's) state_value, TensorValue T1] 0) (reshape_and_chunk ?ops w_q_mapping)"
    by (simp add: mapping_chunks_def Let_def sk cd g0 ss torch_def)
  then show ?thesis by (simp only: ct ebind_Inr rc)
qed




section \<open>The dictionary of the caller\<close>

text \<open>
  Claim C9. A call of \<^verbatim>\<open>convert\<close> on the dictionary at a valid address, whether it ends
  with a dictionary or an exception, leaves that dictionary, and every dictionary that
  existed before the call, as it was: the same keys with the same values in the same
  order. The dictionary it returns is at an address that did not exist before the call, so
  it is not the dictionary of the caller, and it holds the tensors that \<^verbatim>\<open>convert\<close>
  computes; an exception is the one \<^verbatim>\<open>convert\<close> raises. \<^verbatim>\<open>get_mappings\<close> returns
  its mappings and leaves the whole heap as it was.
\<close>

theorem source_dictionary_unchanged:
  "state_dict < length h
   \<longrightarrow> (convert_heap ops mapping_templates h state_dict placeholder_bounds = (h', result)
        \<longrightarrow> h' ! state_dict = h ! state_dict
          \<and> take (length h) h' = h
          \<and> (\<forall>converted_state_dict. result = Inr converted_state_dict
                \<longrightarrow> length h \<le> converted_state_dict
                  \<and> converted_state_dict \<noteq> state_dict
                  \<and> converted_state_dict < length h'
                  \<and> (\<exists>converted.
                        convert ops mapping_templates (h ! state_dict) placeholder_bounds
                          = Inr converted
                        \<and> h' ! converted_state_dict = map (apsnd TensorValue) converted))
          \<and> (\<forall>e. result = Inl e
                \<longrightarrow> convert ops mapping_templates (h ! state_dict) placeholder_bounds = Inl e))
     \<and> get_mappings_heap mapping_templates h state_dict placeholder_bounds
         = (h, get_mappings mapping_templates (h ! state_dict) placeholder_bounds)"
proof (intro impI conjI)
  show "get_mappings_heap mapping_templates h state_dict placeholder_bounds
         = (h, get_mappings mapping_templates (h ! state_dict) placeholder_bounds)"
    by (simp add: get_mappings_heap_def)
next
  assume valid: "state_dict < length h"
    and call: "convert_heap ops mapping_templates h state_dict placeholder_bounds = (h', result)"
  from convert_heap_simulation[OF valid, of ops mapping_templates placeholder_bounds]
  obtain h1 where h1: "length h1 = Suc (length h)" "\<forall>a < length h. h1 ! a = h ! a"
    and sim: "case convert ops mapping_templates (h ! state_dict) placeholder_bounds of
          Inl e \<Rightarrow> (\<exists>h''. convert_heap ops mapping_templates h state_dict placeholder_bounds
                              = (h'', Inl e)
                      \<and> (h'' = h \<or> h'' = h1))
        | Inr converted \<Rightarrow>
            convert_heap ops mapping_templates h state_dict placeholder_bounds
              = (h1, Inr (length h))
            \<and> h1 ! length h = map (apsnd TensorValue) converted"
    by blast
  have frame1: "take (length h) h1 = h"
    using h1 by (intro nth_equalityI) simp_all
  have facts: "h' ! state_dict = h ! state_dict \<and> take (length h) h' = h
      \<and> (\<forall>converted_state_dict. result = Inr converted_state_dict
            \<longrightarrow> length h \<le> converted_state_dict
              \<and> converted_state_dict \<noteq> state_dict
              \<and> converted_state_dict < length h'
              \<and> (\<exists>converted.
                    convert ops mapping_templates (h ! state_dict) placeholder_bounds
                      = Inr converted
                    \<and> h' ! converted_state_dict = map (apsnd TensorValue) converted))
      \<and> (\<forall>e. result = Inl e
            \<longrightarrow> convert ops mapping_templates (h ! state_dict) placeholder_bounds = Inl e)"
  proof (cases "convert ops mapping_templates (h ! state_dict) placeholder_bounds")
    case (Inl e)
    with sim call have r: "result = Inl e" and hh: "h' = h \<or> h' = h1" by auto
    from hh have "take (length h) h' = h" using frame1 by auto
    moreover from hh have "h' ! state_dict = h ! state_dict" using h1(2) valid by auto
    ultimately show ?thesis using r Inl by simp
  next
    case (Inr converted)
    with sim call have r: "result = Inr (length h)" and hh: "h' = h1"
      and v: "h1 ! length h = map (apsnd TensorValue) converted"
      by auto
    from hh have "take (length h) h' = h" using frame1 by simp
    moreover from hh have "h' ! state_dict = h ! state_dict" using h1(2) valid by simp
    moreover have "length h \<noteq> state_dict" using valid by simp
    moreover have "length h < length h'" using hh h1(1) by simp
    ultimately show ?thesis using r Inr v hh by simp
  qed
  from facts show "h' ! state_dict = h ! state_dict" by blast
  from facts show "take (length h) h' = h" by blast
  from facts show "\<forall>converted_state_dict. result = Inr converted_state_dict
            \<longrightarrow> length h \<le> converted_state_dict
              \<and> converted_state_dict \<noteq> state_dict
              \<and> converted_state_dict < length h'
              \<and> (\<exists>converted.
                    convert ops mapping_templates (h ! state_dict) placeholder_bounds
                      = Inr converted
                    \<and> h' ! converted_state_dict = map (apsnd TensorValue) converted)"
    by blast
  from facts show "\<forall>e. result = Inl e
            \<longrightarrow> convert ops mapping_templates (h ! state_dict) placeholder_bounds = Inl e"
    by blast
qed

theorem source_dictionary_unchanged_witness:
  "(0 :: nat) < length [[(''a'', TensorValue (Tensor [2] [7, 8]) :: (int tensor, nat) state_value),
                         (''b'', OtherValue 3)]]
   \<and> convert_heap (torch :: (int tensor, nat) tensor_ops) [copy_a_x_template]
        [[(''a'', TensorValue (Tensor [2] [7, 8])), (''b'', OtherValue 3)]] 0 []
       = ([[(''a'', TensorValue (Tensor [2] [7, 8])), (''b'', OtherValue 3)],
           [(''x'', TensorValue (Tensor [2] [7, 8]))]],
          Inl (UnconvertedKeys [''b'']))
   \<and> convert (torch :: (int tensor, nat) tensor_ops) [copy_a_x_template]
        [(''a'', TensorValue (Tensor [2] [7, 8])), (''b'', OtherValue 3)] []
       = Inl (UnconvertedKeys [''b''])
   \<and> convert_heap (torch :: (int tensor, nat) tensor_ops) [copy_a_x_template]
        [[(''a'', TensorValue (Tensor [2] [7, 8]))]] 0 []
       = ([[(''a'', TensorValue (Tensor [2] [7, 8]))],
           [(''x'', TensorValue (Tensor [2] [7, 8]))]],
          Inr 1)
   \<and> convert (torch :: (int tensor, nat) tensor_ops) [copy_a_x_template]
        [(''a'', TensorValue (Tensor [2] [7, 8]))] []
       = Inr [(''x'', Tensor [2] [7, 8])]"
proof -
  let ?ops = "torch :: (int tensor, nat) tensor_ops"
  let ?T = "Tensor [2] [7, 8] :: int tensor"
  let ?sd = "[(''a'', TensorValue ?T :: (int tensor, nat) state_value), (''b'', OtherValue 3)]"
  let ?sd1 = "[(''a'', TensorValue ?T :: (int tensor, nat) state_value)]"
  let ?d = "[(''x'', TensorValue ?T :: (int tensor, nat) state_value)]"
  have v: "(0 :: nat) < length [?sd]" by simp
  have v1: "(0 :: nat) < length [?sd1]" by simp
  have c: "convert_heap ?ops [copy_a_x_template] [?sd] 0 []
      = ([?sd, ?d], Inl (UnconvertedKeys [''b'']))"
    by code_simp
  have c1: "convert_heap ?ops [copy_a_x_template] [?sd1] 0 [] = ([?sd1, ?d], Inr 1)"
    by code_simp
  note inst = source_dictionary_unchanged[where h = "[?sd]" and state_dict = 0 and ops = ?ops
      and mapping_templates = "[copy_a_x_template]" and placeholder_bounds = "[]"
      and h' = "[?sd, ?d]" and result = "Inl (UnconvertedKeys [''b''])"]
  from inst v c
  have "\<forall>e. Inl (UnconvertedKeys [''b'']) = (Inl e :: error + nat)
      \<longrightarrow> convert ?ops [copy_a_x_template] ([?sd] ! 0) [] = Inl e"
    by blast
  then have r: "convert ?ops [copy_a_x_template] ?sd [] = Inl (UnconvertedKeys [''b''])"
    by simp
  note inst1 = source_dictionary_unchanged[where h = "[?sd1]" and state_dict = 0 and ops = ?ops
      and mapping_templates = "[copy_a_x_template]" and placeholder_bounds = "[]"
      and h' = "[?sd1, ?d]" and result = "Inr 1"]
  from inst1 v1 c1
  have "\<forall>converted_state_dict. (Inr 1 :: error + nat) = Inr converted_state_dict
      \<longrightarrow> (\<exists>converted. convert ?ops [copy_a_x_template] ([?sd1] ! 0) [] = Inr converted
            \<and> [?sd1, ?d] ! converted_state_dict = map (apsnd TensorValue) converted)"
    by blast
  then obtain converted
    where cv: "convert ?ops [copy_a_x_template] ?sd1 [] = Inr converted"
      and eq: "?d = map (apsnd TensorValue) converted"
    by auto
  from eq have "converted = [(''x'', ?T)]"
    by (cases converted) (auto simp: apsnd_def map_prod_def split: prod.splits)
  with cv have r1: "convert ?ops [copy_a_x_template] ?sd1 [] = Inr [(''x'', ?T)]" by simp
  from v c r c1 r1 show ?thesis by blast
qed

end
